theory Spec2Isabelle
  imports Complex_Main "HOL-Library.Word" "HOL-Library.AList" "HOL-Library.Log_Nat"
begin

section \<open>JavaScript numbers\<close>

text \<open>
  A JavaScript \<open>number\<close> is a finite value, one of the two infinities, or NaN. A
  finite value is a real; the values that occur at run time are the reals that a
  binary64 double represents. The arithmetic operations round their exact result to
  the nearest double, ties to even, as IEEE 754 prescribes (\<open>double\<close> below), so on
  doubles they compute what the code computes. The theorems about the arithmetic hold
  for all real operands, hence for all doubles. A decimal literal of the source is
  written as the decimal; the sign of zero is not modelled. Every comparison with
  NaN is false, and \<open>Math.min\<close>/\<open>Math.max\<close> return NaN as soon as one argument is NaN,
  as ECMAScript specifies.
\<close>

datatype number = Num real | PInf | NInf | NaN

fun isNaN :: "number \<Rightarrow> bool" where
  "isNaN NaN = True"
| "isNaN _ = False"

text \<open>
  Rounding to binary64. \<open>binade x\<close> is the exponent \<open>e\<close> with \<open>2^e \<le> x < 2^(e+1)\<close> of a
  positive real. A positive real is rounded to a multiple of the spacing of the doubles
  around it, which is \<open>2^(e-52)\<close>, where \<open>e\<close> is at least -1022 (below \<open>2^-1022\<close> the doubles
  are subnormal and evenly spaced); a result of \<open>2^1024\<close> or more overflows to infinity.
  Negative reals are rounded by symmetry.
\<close>

definition binade :: "real \<Rightarrow> int" where
  "binade x = (if 1 \<le> x then bitlen \<lfloor>x\<rfloor> - 1 else - bitlen (\<lceil>1 / x\<rceil> - 1))"

definition round_even :: "real \<Rightarrow> int" where
  "round_even m =
     (let f = \<lfloor>m\<rfloor>
      in if m - of_int f < 1 / 2 then f
         else if 1 / 2 < m - of_int f then f + 1
         else if even f then f else f + 1)"

definition spacing :: "real \<Rightarrow> real" where
  "spacing x = 2 powi (max (binade x) (- 1022) - 52)"

definition nearest :: "real \<Rightarrow> real" where
  "nearest x = of_int (round_even (x / spacing x)) * spacing x"

definition round_pos :: "real \<Rightarrow> number" where
  "round_pos x = (if 2 powi 1024 \<le> nearest x then PInf else Num (nearest x))"

fun js_neg :: "number \<Rightarrow> number" where
  "js_neg (Num a) = Num (- a)"
| "js_neg PInf = NInf"
| "js_neg NInf = PInf"
| "js_neg NaN = NaN"

definition double :: "real \<Rightarrow> number" where
  "double x =
     (if x = 0 then Num 0
      else if 0 < x then round_pos x
      else js_neg (round_pos (- x)))"

fun js_lt :: "number \<Rightarrow> number \<Rightarrow> bool" where
  "js_lt NaN _ = False"
| "js_lt _ NaN = False"
| "js_lt _ NInf = False"
| "js_lt NInf _ = True"
| "js_lt PInf _ = False"
| "js_lt _ PInf = True"
| "js_lt (Num a) (Num b) = (a < b)"

definition js_gt :: "number \<Rightarrow> number \<Rightarrow> bool" where
  "js_gt x y = js_lt y x"

fun js_le :: "number \<Rightarrow> number \<Rightarrow> bool" where
  "js_le NaN _ = False"
| "js_le _ NaN = False"
| "js_le NInf _ = True"
| "js_le _ NInf = False"
| "js_le _ PInf = True"
| "js_le PInf _ = False"
| "js_le (Num a) (Num b) = (a \<le> b)"

fun Math_min :: "number \<Rightarrow> number \<Rightarrow> number" where
  "Math_min NaN _ = NaN"
| "Math_min _ NaN = NaN"
| "Math_min NInf _ = NInf"
| "Math_min _ NInf = NInf"
| "Math_min PInf y = y"
| "Math_min x PInf = x"
| "Math_min (Num a) (Num b) = Num (min a b)"

fun Math_max :: "number \<Rightarrow> number \<Rightarrow> number" where
  "Math_max NaN _ = NaN"
| "Math_max _ NaN = NaN"
| "Math_max PInf _ = PInf"
| "Math_max _ PInf = PInf"
| "Math_max NInf y = y"
| "Math_max x NInf = x"
| "Math_max (Num a) (Num b) = Num (max a b)"

text \<open>
  \<open>Math.round\<close> rounds to the nearest integer, ties towards plus infinity. Its result
  on a double is a double, so nothing is rounded a second time.
\<close>

fun Math_round :: "number \<Rightarrow> number" where
  "Math_round (Num a) = Num (of_int \<lfloor>a + 1 / 2\<rfloor>)"
| "Math_round x = x"

fun js_add :: "number \<Rightarrow> number \<Rightarrow> number" where
  "js_add NaN _ = NaN"
| "js_add _ NaN = NaN"
| "js_add PInf NInf = NaN"
| "js_add NInf PInf = NaN"
| "js_add PInf _ = PInf"
| "js_add _ PInf = PInf"
| "js_add NInf _ = NInf"
| "js_add _ NInf = NInf"
| "js_add (Num a) (Num b) = double (a + b)"

definition js_sub :: "number \<Rightarrow> number \<Rightarrow> number" where
  "js_sub x y = js_add x (js_neg y)"

fun js_sgn :: "number \<Rightarrow> int" where
  "js_sgn (Num a) = (if a < 0 then - 1 else if a = 0 then 0 else 1)"
| "js_sgn PInf = 1"
| "js_sgn NInf = - 1"
| "js_sgn NaN = 0"

fun js_mul :: "number \<Rightarrow> number \<Rightarrow> number" where
  "js_mul NaN _ = NaN"
| "js_mul _ NaN = NaN"
| "js_mul (Num a) (Num b) = double (a * b)"
| "js_mul x y =
     (if js_sgn x * js_sgn y = 0 then NaN
      else if js_sgn x * js_sgn y > 0 then PInf else NInf)"


fun Number_isInteger :: "number \<Rightarrow> bool" where
  "Number_isInteger (Num a) = (of_int \<lfloor>a\<rfloor> = a)"
| "Number_isInteger _ = False"

section \<open>Option types of the plug-in (types.ts)\<close>

datatype GeometryCompression = Quantize | Meshopt | Draco | Both | CompressFalse

datatype TextureCompressionMode = Auto | Etc1s | Uastc | Mixed | Manual

datatype OptimizationLevel = Light | Medium | Aggressive

text \<open>A regular expression value: its source text and its flags.\<close>

datatype RegExp = RegExp string string

text \<open>
  \<open>GeometryOptions\<close>, \<open>TextureOptions\<close> and \<open>GLTFOptimizerOptions\<close>: every field is
  optional; \<open>None\<close> is \<open>undefined\<close> (a missing key reads as \<open>undefined\<close> as well).
\<close>

record GeometryOptions =
  compress_opt :: "GeometryCompression option"
  quality_opt :: "number option"
  speed_opt :: "number option"
  precision_opt :: "number option"

record TextureOptions =
  mode_opt :: "TextureCompressionMode option"
  tex_quality_opt :: "number option"
  maxSize_opt :: "number option"
  etc1sPatterns_opt :: "RegExp list option"
  uastcPatterns_opt :: "RegExp list option"

record GLTFOptimizerOptions =
  level_opt :: "OptimizationLevel option"
  include_opt :: "RegExp option"
  exclude_opt :: "RegExp option"
  verbose_opt :: "bool option"
  geometry_opt :: "GeometryOptions option"
  textures_opt :: "TextureOptions option"

text \<open>
  \<open>ProcessedOptions\<close>, with \<open>Required<GeometryOptions>\<close> and \<open>Required<TextureOptions>\<close>.
  Only \<open>exclude\<close> may stay \<open>undefined\<close>: processOptions sets it so explicitly.
\<close>

record RequiredGeometryOptions =
  compress :: GeometryCompression
  quality :: number
  speed :: number
  precision :: number

record RequiredTextureOptions =
  mode :: TextureCompressionMode
  tex_quality :: number
  maxSize :: number
  etc1sPatterns :: "RegExp list"
  uastcPatterns :: "RegExp list"

record ProcessedOptions =
  level :: OptimizationLevel
  include_pat :: RegExp
  exclude_pat :: "RegExp option"
  verbose :: bool
  geometry :: RequiredGeometryOptions
  textures :: RequiredTextureOptions

datatype DracoMethod = Edgebreaker | Sequential

record DracoQuantizationBits =
  POSITION :: number
  NORMAL :: number
  TEXCOORD_0 :: number

record DracoParams =
  dracoMethod :: DracoMethod
  encodeSpeed :: number
  decodeSpeed :: number
  quantizationBits :: DracoQuantizationBits

datatype MeshoptLevel = LevelMedium | LevelHigh

record MeshoptParams =
  meshoptLevel :: MeshoptLevel

record QuantizationBits =
  quantizePosition :: number
  quantizeNormal :: number
  quantizeTexcoord :: number
  quantizeColor :: number
  quantizeWeight :: number
  quantizeGeneric :: number

record TextureCompressionParams =
  paramMode :: TextureCompressionMode
  paramQuality :: number
  pattern :: "string option"

section \<open>CompressionMapper (compression-mapper.ts)\<close>

definition clamp01 :: "number \<Rightarrow> number" where
  "clamp01 x = Math_max (Num 0) (Math_min (Num 1) x)"

definition toDracoParams :: "number \<Rightarrow> number \<Rightarrow> number \<Rightarrow> DracoParams" where
  "toDracoParams quality0 speed0 precision0 =
     (let q = clamp01 quality0;
          s = clamp01 speed0;
          p = clamp01 precision0
      in \<lparr> dracoMethod = (if js_gt q (Num (5 / 10)) then Edgebreaker else Sequential),
           encodeSpeed = Math_round (js_mul s (Num 10)),
           decodeSpeed = Math_round (js_mul q (Num 10)),
           quantizationBits =
             \<lparr> POSITION = js_add (Num 10) (Math_round (js_mul p (Num 6))),
               NORMAL = js_add (Num 8) (Math_round (js_mul p (Num 2))),
               TEXCOORD_0 = js_add (Num 10) (Math_round (js_mul p (Num 2))) \<rparr> \<rparr>)"

definition toMeshoptParams :: "number \<Rightarrow> MeshoptParams" where
  "toMeshoptParams quality0 =
     (let q = clamp01 quality0
      in \<lparr> meshoptLevel = (if js_gt q (Num (6 / 10)) then LevelMedium else LevelHigh) \<rparr>)"

definition toQuantizationBits :: "number \<Rightarrow> QuantizationBits" where
  "toQuantizationBits precision0 =
     (let p = clamp01 precision0
      in \<lparr> quantizePosition = js_add (Num 10) (Math_round (js_mul p (Num 6))),
           quantizeNormal = js_add (Num 8) (Math_round (js_mul p (Num 2))),
           quantizeTexcoord = js_add (Num 10) (Math_round (js_mul p (Num 2))),
           quantizeColor = Num 8,
           quantizeWeight = Num 8,
           quantizeGeneric = js_add (Num 10) (Math_round (js_mul p (Num 2))) \<rparr>)"

definition toETC1SParams :: "number \<Rightarrow> string option \<Rightarrow> TextureCompressionParams" where
  "toETC1SParams quality0 pat =
     (let q = clamp01 quality0
      in \<lparr> paramMode = Etc1s,
           paramQuality = Math_round (js_mul q (Num 255)),
           pattern = pat \<rparr>)"

definition toUASTCParams :: "number \<Rightarrow> string option \<Rightarrow> TextureCompressionParams" where
  "toUASTCParams quality0 pat =
     (let q = clamp01 quality0
      in \<lparr> paramMode = Uastc,
           paramQuality = Math_round (js_mul (js_sub (Num 1) q) (Num 4)),
           pattern = pat \<rparr>)"

text \<open>A number lies in the closed interval from \<open>lo\<close> to \<open>hi\<close>.\<close>

definition in_range :: "real \<Rightarrow> real \<Rightarrow> number \<Rightarrow> bool" where
  "in_range lo hi x = (js_le (Num lo) x \<and> js_le x (Num hi))"

section \<open>PresetManager (preset-manager.ts)\<close>

definition empty_geometry :: GeometryOptions where
  "empty_geometry =
     \<lparr> compress_opt = None, quality_opt = None, speed_opt = None, precision_opt = None \<rparr>"

definition empty_textures :: TextureOptions where
  "empty_textures =
     \<lparr> mode_opt = None, tex_quality_opt = None, maxSize_opt = None,
       etc1sPatterns_opt = None, uastcPatterns_opt = None \<rparr>"

definition empty_options :: GLTFOptimizerOptions where
  "empty_options =
     \<lparr> level_opt = None, include_opt = None, exclude_opt = None, verbose_opt = None,
       geometry_opt = None, textures_opt = None \<rparr>"

text \<open>
  getPreset. The \<open>default\<close> branch of its \<open>switch\<close> (an unknown level falls back to
  \<open>medium\<close>) is outside the type \<open>OptimizationLevel\<close>; likewise a level that is present
  is always truthy in \<open>if (options.level)\<close>.
\<close>

fun getPreset :: "OptimizationLevel \<Rightarrow> GLTFOptimizerOptions" where
  "getPreset Light =
     empty_options
     \<lparr> geometry_opt := Some
         \<lparr> compress_opt = Some Quantize, quality_opt = Some (Num (9 / 10)),
           speed_opt = Some (Num (8 / 10)), precision_opt = Some (Num (95 / 100)) \<rparr>,
       textures_opt := Some (empty_textures
         \<lparr> mode_opt := Some Auto, tex_quality_opt := Some (Num (85 / 100)),
           maxSize_opt := Some (Num 2048) \<rparr>) \<rparr>"
| "getPreset Medium =
     empty_options
     \<lparr> geometry_opt := Some
         \<lparr> compress_opt = Some Meshopt, quality_opt = Some (Num (75 / 100)),
           speed_opt = Some (Num (5 / 10)), precision_opt = Some (Num (8 / 10)) \<rparr>,
       textures_opt := Some (empty_textures
         \<lparr> mode_opt := Some Auto, tex_quality_opt := Some (Num (75 / 100)),
           maxSize_opt := Some (Num 1024) \<rparr>) \<rparr>"
| "getPreset Aggressive =
     empty_options
     \<lparr> geometry_opt := Some
         \<lparr> compress_opt = Some Draco, quality_opt = Some (Num (5 / 10)),
           speed_opt = Some (Num (3 / 10)), precision_opt = Some (Num (6 / 10)) \<rparr>,
       textures_opt := Some (empty_textures
         \<lparr> mode_opt := Some Auto, tex_quality_opt := Some (Num (55 / 100)),
           maxSize_opt := Some (Num 512) \<rparr>) \<rparr>"

text \<open>
  The \<open>baseDefaults\<close> object literal of processOptions; its \<open>exclude\<close> is written
  \<open>undefined\<close> in the source.
\<close>

definition baseDefaults :: GLTFOptimizerOptions where
  "baseDefaults =
     \<lparr> level_opt = Some Medium,
       include_opt = Some (RegExp (CHR 0x5C # ''.(gltf|glb)$'') ''i''),
       exclude_opt = None,
       verbose_opt = Some False,
       geometry_opt = Some
         \<lparr> compress_opt = Some Meshopt, quality_opt = Some (Num (75 / 100)),
           speed_opt = Some (Num (5 / 10)), precision_opt = Some (Num (8 / 10)) \<rparr>,
       textures_opt = Some
         \<lparr> mode_opt = Some Auto, tex_quality_opt = Some (Num (75 / 100)),
           maxSize_opt = Some (Num 1024), etc1sPatterns_opt = Some [],
           uastcPatterns_opt = Some [] \<rparr> \<rparr>"

text \<open>
  deepMerge, one key at a time. A value that is \<open>undefined\<close> is skipped; a number, a
  string, a boolean, an array or a RegExp replaces what the result holds; a plain object
  (the \<open>geometry\<close> and \<open>textures\<close> groups) is merged into \<open>result[key] || {}\<close> by a
  recursive call.
\<close>

definition assign_value :: "'a option \<Rightarrow> 'a option \<Rightarrow> 'a option" where
  "assign_value r v = (case v of None \<Rightarrow> r | Some x \<Rightarrow> Some x)"

definition merge_geometry :: "GeometryOptions \<Rightarrow> GeometryOptions \<Rightarrow> GeometryOptions" where
  "merge_geometry r obj =
     \<lparr> compress_opt = assign_value (compress_opt r) (compress_opt obj),
       quality_opt = assign_value (quality_opt r) (quality_opt obj),
       speed_opt = assign_value (speed_opt r) (speed_opt obj),
       precision_opt = assign_value (precision_opt r) (precision_opt obj) \<rparr>"

definition deepMerge_geometry :: "GeometryOptions list \<Rightarrow> GeometryOptions" where
  "deepMerge_geometry objects = foldl merge_geometry empty_geometry objects"

definition merge_textures :: "TextureOptions \<Rightarrow> TextureOptions \<Rightarrow> TextureOptions" where
  "merge_textures r obj =
     \<lparr> mode_opt = assign_value (mode_opt r) (mode_opt obj),
       tex_quality_opt = assign_value (tex_quality_opt r) (tex_quality_opt obj),
       maxSize_opt = assign_value (maxSize_opt r) (maxSize_opt obj),
       etc1sPatterns_opt = assign_value (etc1sPatterns_opt r) (etc1sPatterns_opt obj),
       uastcPatterns_opt = assign_value (uastcPatterns_opt r) (uastcPatterns_opt obj) \<rparr>"

definition deepMerge_textures :: "TextureOptions list \<Rightarrow> TextureOptions" where
  "deepMerge_textures objects = foldl merge_textures empty_textures objects"

definition merge_options :: "GLTFOptimizerOptions \<Rightarrow> GLTFOptimizerOptions \<Rightarrow> GLTFOptimizerOptions" where
  "merge_options r obj =
     \<lparr> level_opt = assign_value (level_opt r) (level_opt obj),
       include_opt = assign_value (include_opt r) (include_opt obj),
       exclude_opt = assign_value (exclude_opt r) (exclude_opt obj),
       verbose_opt = assign_value (verbose_opt r) (verbose_opt obj),
       geometry_opt =
         (case geometry_opt obj of
            None \<Rightarrow> geometry_opt r
          | Some g \<Rightarrow> Some (deepMerge_geometry
              [case geometry_opt r of None \<Rightarrow> empty_geometry | Some x \<Rightarrow> x, g])),
       textures_opt =
         (case textures_opt obj of
            None \<Rightarrow> textures_opt r
          | Some t \<Rightarrow> Some (deepMerge_textures
              [case textures_opt r of None \<Rightarrow> empty_textures | Some x \<Rightarrow> x, t])) \<rparr>"

definition deepMerge :: "GLTFOptimizerOptions list \<Rightarrow> GLTFOptimizerOptions" where
  "deepMerge objects = foldl merge_options empty_options objects"

definition processOptions :: "GLTFOptimizerOptions \<Rightarrow> GLTFOptimizerOptions" where
  "processOptions options =
     (let presetConfig = (case level_opt options of
                            Some l \<Rightarrow> getPreset l
                          | None \<Rightarrow> empty_options);
          merged = deepMerge [baseDefaults, presetConfig, options]
      in if exclude_opt options = None \<and> exclude_opt presetConfig = None
         then merged \<lparr> exclude_opt := None \<rparr>
         else merged)"

text \<open>
  The cast \<open>merged as ProcessedOptions\<close> does nothing at run time. In the model it is
  the place where the required fields are read: the result is \<open>None\<close> when one of them
  is missing.
\<close>

definition as_RequiredGeometry :: "GeometryOptions \<Rightarrow> RequiredGeometryOptions option" where
  "as_RequiredGeometry g =
     (case (compress_opt g, quality_opt g, speed_opt g, precision_opt g) of
        (Some c, Some q, Some s, Some p) \<Rightarrow>
          Some \<lparr> compress = c, quality = q, speed = s, precision = p \<rparr>
      | _ \<Rightarrow> None)"

definition as_RequiredTextures :: "TextureOptions \<Rightarrow> RequiredTextureOptions option" where
  "as_RequiredTextures t =
     (case (mode_opt t, tex_quality_opt t, maxSize_opt t, etc1sPatterns_opt t,
            uastcPatterns_opt t) of
        (Some m, Some q, Some s, Some e, Some u) \<Rightarrow>
          Some \<lparr> mode = m, tex_quality = q, maxSize = s, etc1sPatterns = e,
                 uastcPatterns = u \<rparr>
      | _ \<Rightarrow> None)"

definition as_ProcessedOptions :: "GLTFOptimizerOptions \<Rightarrow> ProcessedOptions option" where
  "as_ProcessedOptions opts =
     (case (level_opt opts, include_opt opts, verbose_opt opts,
            Option.bind (geometry_opt opts) as_RequiredGeometry,
            Option.bind (textures_opt opts) as_RequiredTextures) of
        (Some l, Some i, Some v, Some g, Some t) \<Rightarrow>
          Some \<lparr> level = l, include_pat = i, exclude_pat = exclude_opt opts, verbose = v,
                 geometry = g, textures = t \<rparr>
      | _ \<Rightarrow> None)"

text \<open>
  validateOptions. A warning records the field and the value found there (the source
  formats them into a string). The options are mutated in place; the model returns
  them after the call, with the warnings in the order they were pushed.
\<close>

datatype warning =
    InvalidGeometryQuality number
  | InvalidGeometrySpeed number
  | InvalidGeometryPrecision number
  | InvalidTexturesQuality number
  | InvalidTexturesMaxSize number

definition check_geometry_quality ::
  "ProcessedOptions \<times> warning list \<Rightarrow> ProcessedOptions \<times> warning list" where
  "check_geometry_quality = (\<lambda>(options, warnings).
     if js_lt (quality (geometry options)) (Num 0) \<or>
        js_gt (quality (geometry options)) (Num 1) \<or>
        isNaN (quality (geometry options))
     then (options \<lparr> geometry := (geometry options) \<lparr> quality := Num (75 / 100) \<rparr> \<rparr>,
           warnings @ [InvalidGeometryQuality (quality (geometry options))])
     else (options, warnings))"

definition check_geometry_speed ::
  "ProcessedOptions \<times> warning list \<Rightarrow> ProcessedOptions \<times> warning list" where
  "check_geometry_speed = (\<lambda>(options, warnings).
     if js_lt (speed (geometry options)) (Num 0) \<or>
        js_gt (speed (geometry options)) (Num 1) \<or>
        isNaN (speed (geometry options))
     then (options \<lparr> geometry := (geometry options) \<lparr> speed := Num (5 / 10) \<rparr> \<rparr>,
           warnings @ [InvalidGeometrySpeed (speed (geometry options))])
     else (options, warnings))"

definition check_geometry_precision ::
  "ProcessedOptions \<times> warning list \<Rightarrow> ProcessedOptions \<times> warning list" where
  "check_geometry_precision = (\<lambda>(options, warnings).
     if js_lt (precision (geometry options)) (Num 0) \<or>
        js_gt (precision (geometry options)) (Num 1) \<or>
        isNaN (precision (geometry options))
     then (options \<lparr> geometry := (geometry options) \<lparr> precision := Num (8 / 10) \<rparr> \<rparr>,
           warnings @ [InvalidGeometryPrecision (precision (geometry options))])
     else (options, warnings))"

definition check_textures_quality ::
  "ProcessedOptions \<times> warning list \<Rightarrow> ProcessedOptions \<times> warning list" where
  "check_textures_quality = (\<lambda>(options, warnings).
     if js_lt (tex_quality (textures options)) (Num 0) \<or>
        js_gt (tex_quality (textures options)) (Num 1) \<or>
        isNaN (tex_quality (textures options))
     then (options \<lparr> textures := (textures options) \<lparr> tex_quality := Num (75 / 100) \<rparr> \<rparr>,
           warnings @ [InvalidTexturesQuality (tex_quality (textures options))])
     else (options, warnings))"

definition check_textures_maxSize ::
  "ProcessedOptions \<times> warning list \<Rightarrow> ProcessedOptions \<times> warning list" where
  "check_textures_maxSize = (\<lambda>(options, warnings).
     if js_le (maxSize (textures options)) (Num 0) \<or>
        \<not> Number_isInteger (maxSize (textures options))
     then (options \<lparr> textures := (textures options) \<lparr> maxSize := Num 1024 \<rparr> \<rparr>,
           warnings @ [InvalidTexturesMaxSize (maxSize (textures options))])
     else (options, warnings))"

definition validateOptions :: "ProcessedOptions \<Rightarrow> ProcessedOptions \<times> warning list" where
  "validateOptions options =
     check_textures_maxSize (check_textures_quality (check_geometry_precision
       (check_geometry_speed (check_geometry_quality (options, [])))))"

text \<open>
  The same call with the options object held in a store of objects: the caller passes
  a reference, the object behind it is updated, and the reference is what
  \<open>return options\<close> gives back.
\<close>

type_synonym ref = nat

definition validateOptions_ref ::
  "(ref \<Rightarrow> ProcessedOptions) \<Rightarrow> ref \<Rightarrow> ref \<times> (ref \<Rightarrow> ProcessedOptions)" where
  "validateOptions_ref store r = (r, store (r := fst (validateOptions (store r))))"

text \<open>The documented ranges of the numeric fields.\<close>

definition positive_integer :: "number \<Rightarrow> bool" where
  "positive_integer x = (js_lt (Num 0) x \<and> Number_isInteger x)"

definition numeric_fields_valid :: "ProcessedOptions \<Rightarrow> bool" where
  "numeric_fields_valid p =
     (in_range 0 1 (quality (geometry p)) \<and> in_range 0 1 (speed (geometry p)) \<and>
      in_range 0 1 (precision (geometry p)) \<and> in_range 0 1 (tex_quality (textures p)) \<and>
      positive_integer (maxSize (textures p)))"

section \<open>Strings, paths and buffers of the runtime\<close>

text \<open>
  A string is the list of the UTF-8 bytes of the JavaScript string. The tests of the
  plug-in compare with ASCII text only (\<open>data:\<close>, \<open>./\<close>, a slash, a dot, the file
  extensions and the slot keywords), and an ASCII byte never occurs inside the encoding
  of another character, so these tests read the same on the bytes as on the characters.

  \<open>toLowerCase\<close> is exact in the ASCII letters of its result, which is all that those
  tests can see: it folds \<open>A\<close>-\<open>Z\<close>, maps the Kelvin sign U+212A (bytes E2 84 AA) to \<open>k\<close>
  and U+0130 (bytes C4 B0) to \<open>i\<close> followed by U+0307 (bytes CC 87), the only characters
  outside ASCII whose lower-case form contains an ASCII letter, and leaves every other
  character outside ASCII as it is (its lower-case form is outside ASCII as well).
\<close>

definition toLowerCase_char :: "char \<Rightarrow> char" where
  "toLowerCase_char c =
     (let n = (of_char c :: nat) in if 65 \<le> n \<and> n \<le> 90 then char_of (n + 32) else c)"

fun toLowerCase :: "string \<Rightarrow> string" where
  "toLowerCase [] = []"
| "toLowerCase (c # cs) =
     (if c = CHR 0xE2 \<and> take 2 cs = [CHR 0x84, CHR 0xAA]
      then CHR ''k'' # toLowerCase (drop 2 cs)
      else if c = CHR 0xC4 \<and> take 1 cs = [CHR 0xB0]
      then CHR ''i'' # CHR 0xCC # CHR 0x87 # toLowerCase (drop 1 cs)
      else toLowerCase_char c # toLowerCase cs)"

definition startsWith :: "string \<Rightarrow> string \<Rightarrow> bool" where
  "startsWith s p = (take (length p) s = p)"

definition endsWith :: "string \<Rightarrow> string \<Rightarrow> bool" where
  "endsWith s p = (length p \<le> length s \<and> drop (length s - length p) s = p)"


text \<open>\<open>s.replace(/^\.\//, '')\<close>: a leading \<open>./\<close> is removed, once.\<close>

definition stripDotSlash :: "string \<Rightarrow> string" where
  "stripDotSlash s = (if startsWith s ''./'' then drop 2 s else s)"

text \<open>
  \<open>s.replace(/\.[^.]+$/i, '')\<close>: the last dot and what follows it are removed when at
  least one character follows that dot.
\<close>

definition stripExtension :: "string \<Rightarrow> string" where
  "stripExtension s =
     (let e = takeWhile (\<lambda>c. c \<noteq> CHR ''.'') (rev s)
      in if e \<noteq> [] \<and> length e < length s then take (length s - length e - 1) s else s)"

text \<open>
  Node's \<open>path.posix.basename\<close>, \<open>path.extname\<close> and \<open>path.basename(p, ext)\<close>: trailing
  slashes are dropped and the last segment is kept; the extension runs from the last dot
  of that segment, unless the segment has no dot or only a leading one; a suffix equal to
  the whole segment leaves nothing.
\<close>

definition posix_basename :: "string \<Rightarrow> string" where
  "posix_basename p =
     rev (takeWhile (\<lambda>c. c \<noteq> CHR ''/'') (dropWhile (\<lambda>c. c = CHR ''/'') (rev p)))"

definition extname :: "string \<Rightarrow> string" where
  "extname p =
     (let b = posix_basename p;
          e = takeWhile (\<lambda>c. c \<noteq> CHR ''.'') (rev b)
      in if length e + 1 < length b \<and> b \<noteq> ''..'' then drop (length b - length e - 1) b
         else [])"

definition basename_ext :: "string \<Rightarrow> string \<Rightarrow> string" where
  "basename_ext p ext =
     (let b = posix_basename p
      in if ext \<noteq> [] \<and> endsWith b ext
         then take (length b - length ext) b
         else b)"

type_synonym byte = "8 word"

text \<open>
  A Node \<open>Buffer\<close> is a view of \<open>byteLength\<close> bytes, starting at \<open>byteOffset\<close>, of an
  underlying \<open>ArrayBuffer\<close> that it may share with other buffers (\<open>buf.buffer\<close>).
\<close>

record Buffer =
  buffer :: "byte list"
  byteOffset :: nat
  byteLength :: nat

definition contents :: "Buffer \<Rightarrow> byte list" where
  "contents b = take (byteLength b) (drop (byteOffset b) (buffer b))"

text \<open>A buffer that owns its \<open>ArrayBuffer\<close>, as a fresh unpooled allocation does.\<close>

definition ownBuffer :: "byte list \<Rightarrow> Buffer" where
  "ownBuffer bs = \<lparr> buffer = bs, byteOffset = 0, byteLength = length bs \<rparr>"

text \<open>\<open>buf.subarray(start, end)\<close> for non-negative indices: both are clamped to the view.\<close>

definition subarray :: "Buffer \<Rightarrow> nat \<Rightarrow> nat \<Rightarrow> Buffer" where
  "subarray b start end' =
     (let s = min start (byteLength b);
          e = max s (min end' (byteLength b))
      in \<lparr> buffer = buffer b, byteOffset = byteOffset b + s, byteLength = e - s \<rparr>)"

datatype error =
    TypeError
  | RangeError
  | SyntaxError
  | IOError
  | LibraryError
  | UnsupportedFormat string

text \<open>
  \<open>new DataView(arrayBuffer).getUint32(offset, true)\<close>: four bytes of the ArrayBuffer,
  least significant first; a RangeError when they are not all inside it.
\<close>

definition getUint32_le :: "byte list \<Rightarrow> nat \<Rightarrow> error + nat" where
  "getUint32_le ab off =
     (if off + 4 \<le> length ab
      then Inr (unat (ab ! off) + 256 * unat (ab ! (off + 1)) +
                65536 * unat (ab ! (off + 2)) + 16777216 * unat (ab ! (off + 3)))
      else Inl RangeError)"

section \<open>The glTF JSON as the plug-in reads it\<close>

text \<open>
  Only \<open>buffers\<close> and \<open>images\<close> and the \<open>uri\<close> of their elements are read or written;
  every other key is carried along unchanged and left out here. The JSON is untyped in
  the source, so the shapes that make the code throw are part of the model:
  \<^item> \<open>UriMissing\<close> is an absent \<open>uri\<close> or a falsy one that is not a string, \<open>UriOther\<close> a
    truthy value that is not a string (calling \<open>startsWith\<close> on it is a TypeError);
  \<^item> \<open>NullEntry\<close> is a \<open>null\<close> array element (reading its \<open>uri\<close> is a TypeError);
  \<^item> \<open>FieldMissing\<close> is an absent or falsy field, \<open>FieldNotIterable\<close> a truthy value that
    \<open>for ... of\<close> cannot iterate (a TypeError) and that \<open>Array.isArray\<close> rejects;
  \<^item> \<open>JsonNull\<close> is a document that parsed to \<open>null\<close>.
\<close>

datatype uri_value = UriMissing | UriString string | UriOther

datatype gltf_entry = NullEntry | Entry uri_value

datatype array_field = FieldMissing | FieldNotIterable | FieldArray "gltf_entry list"

record gltf_doc =
  buffers :: array_field
  images :: array_field

datatype json_value = JsonNull | JsonDoc gltf_doc

text \<open>
  The loop \<open>for (const x of xs) { if (x.uri && !x.uri.startsWith('data:')) body(x.uri) }\<close>
  that loadExternalResources, trackDependencyFiles and findOriginalDependencies all
  run. The state reached so far is returned together with the exception, if one was
  thrown: the mutations made before it stay.
\<close>

fun for_each_uri :: "(string \<Rightarrow> 's \<Rightarrow> 's) \<Rightarrow> gltf_entry list \<Rightarrow> 's \<Rightarrow> 's \<times> error option" where
  "for_each_uri body [] st = (st, None)"
| "for_each_uri body (NullEntry # xs) st = (st, Some TypeError)"
| "for_each_uri body (Entry UriMissing # xs) st = for_each_uri body xs st"
| "for_each_uri body (Entry UriOther # xs) st = (st, Some TypeError)"
| "for_each_uri body (Entry (UriString u) # xs) st =
     (if u \<noteq> [] \<and> \<not> startsWith u ''data:''
      then for_each_uri body xs (body u st)
      else for_each_uri body xs st)"

text \<open>\<open>if (json.field) { for (const x of json.field) ... }\<close>\<close>

definition for_field :: "(string \<Rightarrow> 's \<Rightarrow> 's) \<Rightarrow> array_field \<Rightarrow> 's \<Rightarrow> 's \<times> error option" where
  "for_field body fld st =
     (case fld of
        FieldMissing \<Rightarrow> (st, None)
      | FieldNotIterable \<Rightarrow> (st, Some TypeError)
      | FieldArray xs \<Rightarrow> for_each_uri body xs st)"

section \<open>GLTFProcessor (gltf-processor.ts)\<close>

text \<open>
  The transforms of gltf-transform that the processor passes to \<open>document.transform\<close>,
  with the parameters it gives them. What a transform does to a document is the
  library's business: the library is a parameter of the model, and each of its entry
  points may throw.
\<close>

datatype transform =
    Prune
  | Dedup
  | QuantizeT QuantizationBits
  | MeshoptT MeshoptLevel
  | DracoT DracoParams
  | TextureCompressT number
  | ToktxT TextureCompressionMode number RegExp

text \<open>
  \<open>readJSON\<close> stands for \<open>JSON.parse\<close> of the decoded text followed by
  \<open>io.readJSON\<close> with no resources; \<open>bufferFrom\<close> is \<open>Buffer.from\<close>.
\<close>

record 'doc NodeIO =
  readJSON :: "byte list \<Rightarrow> error + 'doc"
  readBinary :: "byte list \<Rightarrow> error + 'doc"
  applyTransform :: "transform \<Rightarrow> 'doc \<Rightarrow> error + 'doc"
  writeBinary :: "'doc \<Rightarrow> error + byte list"
  bufferFrom :: "byte list \<Rightarrow> Buffer"

definition and_then :: "error + 'a \<Rightarrow> ('a \<Rightarrow> error + 'b) \<Rightarrow> error + 'b" where
  "and_then r f = (case r of Inl e \<Rightarrow> Inl e | Inr x \<Rightarrow> f x)"

text \<open>\<open>await document.transform(t1, ..., tn)\<close>: the transforms run in order.\<close>

fun transformDocument :: "'doc NodeIO \<Rightarrow> transform list \<Rightarrow> 'doc \<Rightarrow> error + 'doc" where
  "transformDocument io [] d = Inr d"
| "transformDocument io (t # ts) d =
     (case applyTransform io t d of
        Inl e \<Rightarrow> Inl e
      | Inr d' \<Rightarrow> transformDocument io ts d')"

text \<open>
  In the \<open>meshopt\<close> and \<open>both\<close> cases the source computes
  \<open>CompressionMapper.toMeshoptParams(quality)\<close> and prints its level when verbose; the
  call of the \<open>meshopt\<close> transform is commented out in both.
\<close>

definition applyGeometryOptimizations ::
  "'doc NodeIO \<Rightarrow> ProcessedOptions \<Rightarrow> 'doc \<Rightarrow> error + 'doc" where
  "applyGeometryOptimizations io options document =
     and_then (transformDocument io [Prune, Dedup] document) (\<lambda>d1.
     and_then (if compress (geometry options) \<noteq> CompressFalse
               then transformDocument io
                      [QuantizeT (toQuantizationBits (precision (geometry options)))] d1
               else Inr d1) (\<lambda>d2.
     case compress (geometry options) of
       Meshopt \<Rightarrow> Inr d2
     | Draco \<Rightarrow>
         transformDocument io
           [DracoT (toDracoParams (quality (geometry options)) (speed (geometry options))
                      (precision (geometry options)))] d2
     | Both \<Rightarrow>
         transformDocument io
           [DracoT (toDracoParams (quality (geometry options)) (speed (geometry options))
                      (precision (geometry options)))] d2
     | Quantize \<Rightarrow> Inr d2
     | CompressFalse \<Rightarrow> Inr d2))"

fun regexp_source :: "RegExp \<Rightarrow> string" where
  "regexp_source (RegExp src flags) = src"

fun join_with :: "string \<Rightarrow> string list \<Rightarrow> string" where
  "join_with sep [] = []"
| "join_with sep [x] = x"
| "join_with sep (x # y # ys) = x @ sep @ join_with sep (y # ys)"

definition slotPattern :: "RegExp list \<Rightarrow> RegExp \<Rightarrow> RegExp" where
  "slotPattern patterns fallback =
     (if length patterns > 0
      then RegExp (join_with ''|'' (map regexp_source patterns)) []
      else fallback)"

definition applyTextureOptimizations ::
  "'doc NodeIO \<Rightarrow> ProcessedOptions \<Rightarrow> 'doc \<Rightarrow> error + 'doc" where
  "applyTextureOptimizations io options document =
     (let t = textures options;
          etc1sParams = toETC1SParams (tex_quality t) None;
          uastcParams = toUASTCParams (tex_quality t) None
      in case mode t of
           Etc1s \<Rightarrow>
             transformDocument io
               [TextureCompressT (maxSize t),
                ToktxT Etc1s (paramQuality etc1sParams)
                  (slotPattern (etc1sPatterns t) (RegExp ''.*'' []))] document
         | Uastc \<Rightarrow>
             transformDocument io
               [TextureCompressT (maxSize t),
                ToktxT Uastc (paramQuality uastcParams)
                  (slotPattern (uastcPatterns t) (RegExp ''.*'' []))] document
         | Manual \<Rightarrow> transformDocument io [TextureCompressT (maxSize t)] document
         | _ \<Rightarrow>
             transformDocument io
               [TextureCompressT (maxSize t),
                ToktxT Etc1s (paramQuality etc1sParams)
                  (slotPattern (etc1sPatterns t)
                     (RegExp ''(baseColorTexture|emissiveTexture|diffuseTexture)'' ''i'')),
                ToktxT Uastc (paramQuality uastcParams)
                  (slotPattern (uastcPatterns t)
                     (RegExp ''(normalTexture|metallicRoughnessTexture|occlusionTexture)''
                        ''i''))] document)"

text \<open>
  The body of the \<open>try\<close> block of processBuffer (reading the document by extension,
  the two optimization passes, writing the binary form), and processBuffer itself.
\<close>

definition loadDocument :: "'doc NodeIO \<Rightarrow> Buffer \<Rightarrow> string \<Rightarrow> error + 'doc" where
  "loadDocument io inputBuffer fileName =
     (if endsWith (toLowerCase fileName) ''.gltf'' then readJSON io (contents inputBuffer)
      else if endsWith (toLowerCase fileName) ''.glb''
      then readBinary io (contents inputBuffer)
      else Inl (UnsupportedFormat fileName))"

definition processBuffer_try ::
  "'doc NodeIO \<Rightarrow> ProcessedOptions \<Rightarrow> Buffer \<Rightarrow> string \<Rightarrow> error + Buffer" where
  "processBuffer_try io options inputBuffer fileName =
     and_then (loadDocument io inputBuffer fileName) (\<lambda>document.
     and_then (applyGeometryOptimizations io options document) (\<lambda>d1.
     and_then (applyTextureOptimizations io options d1) (\<lambda>d2.
     and_then (writeBinary io d2) (\<lambda>optimizedBuffer.
     Inr (bufferFrom io optimizedBuffer)))))"

definition processBuffer ::
  "'doc NodeIO \<Rightarrow> ProcessedOptions \<Rightarrow> Buffer \<Rightarrow> string \<Rightarrow> Buffer" where
  "processBuffer io options inputBuffer fileName =
     (case processBuffer_try io options inputBuffer fileName of
        Inr optimized \<Rightarrow> optimized
      | Inl e \<Rightarrow> inputBuffer)"


type_synonym resources = "(string \<times> byte list) list"















section \<open>The plug-in (index.ts)\<close>

subsection \<open>computeTextureRank and the shared KTX2 cache\<close>




record CacheEntry =
  rank :: number
  cachedBuffer :: "byte list"

record BundleAsset =
  fileName :: string
  source :: "byte list"
  assetType :: string
  assetName :: string

type_synonym ktx_cache = "string \<Rightarrow> CacheEntry option"





subsection \<open>Dependency extraction\<close>

text \<open>
  The part that trackDependencyFiles and findOriginalDependencies share word for
  word: choosing by extension, and for a \<open>.glb\<close> reading the chunk length through a
  \<open>DataView\<close> of \<open>gltfBuffer.buffer\<close> and taking \<open>gltfBuffer.subarray(20, 20 + length)\<close>.
  \<open>JSON.parse\<close> of the decoded bytes is a parameter. \<open>None\<close> is the early return for
  an unknown extension.
\<close>

definition extractJson ::
  "(byte list \<Rightarrow> error + json_value) \<Rightarrow> string \<Rightarrow> Buffer \<Rightarrow> (error + json_value) option" where
  "extractJson parse gltfFileName gltfBuffer =
     (if endsWith gltfFileName ''.gltf'' then Some (parse (contents gltfBuffer))
      else if endsWith gltfFileName ''.glb''
      then Some (case getUint32_le (buffer gltfBuffer) 12 of
                   Inl e \<Rightarrow> Inl e
                 | Inr jsonChunkLength \<Rightarrow>
                     parse (contents (subarray gltfBuffer 20 (20 + jsonChunkLength))))
      else None)"

text \<open>
  trackDependencyFiles adds to the set \<open>dependencyFiles\<close> of the plug-in; whatever is
  thrown is caught and what was added before stays. \<open>path.dirname\<close> and
  \<open>path.posix.join\<close> are parameters.
\<close>

definition trackDependencyFiles ::
  "(byte list \<Rightarrow> error + json_value) \<Rightarrow> (string \<Rightarrow> string) \<Rightarrow> (string \<Rightarrow> string \<Rightarrow> string) \<Rightarrow>
   string \<Rightarrow> Buffer \<Rightarrow> string set \<Rightarrow> string set" where
  "trackDependencyFiles parse dirname join gltfFileName gltfBuffer dependencyFiles =
     (case extractJson parse gltfFileName gltfBuffer of
        None \<Rightarrow> dependencyFiles
      | Some (Inl e) \<Rightarrow> dependencyFiles
      | Some (Inr JsonNull) \<Rightarrow> dependencyFiles
      | Some (Inr (JsonDoc gltfJson)) \<Rightarrow>
          (let basePath = dirname gltfFileName
           in case for_field (\<lambda>u deps. insert (join basePath u) deps) (buffers gltfJson)
                     dependencyFiles of
                (deps1, Some e) \<Rightarrow> deps1
              | (deps1, None) \<Rightarrow>
                  fst (for_field (\<lambda>u deps. insert (join basePath u) deps) (images gltfJson)
                         deps1)))"

text \<open>
  findOriginalDependencies returns the list it has built, or the empty list when
  anything was thrown. \<open>fs.readFile\<close>, \<open>path.dirname\<close> and \<open>path.resolve\<close> are
  parameters.
\<close>

definition findOriginalDependencies ::
  "(string \<Rightarrow> error + Buffer) \<Rightarrow> (byte list \<Rightarrow> error + json_value) \<Rightarrow> (string \<Rightarrow> string) \<Rightarrow>
   (string \<Rightarrow> string \<Rightarrow> string) \<Rightarrow> string \<Rightarrow> string list" where
  "findOriginalDependencies readFile parse dirname resolve gltfPath =
     (case readFile gltfPath of
        Inl e \<Rightarrow> []
      | Inr gltfBuffer \<Rightarrow>
          (case extractJson parse gltfPath gltfBuffer of
             None \<Rightarrow> []
           | Some (Inl e) \<Rightarrow> []
           | Some (Inr JsonNull) \<Rightarrow> []
           | Some (Inr (JsonDoc gltfJson)) \<Rightarrow>
               (let gltfDir = dirname gltfPath
                in case for_field (\<lambda>u deps. deps @ [resolve gltfDir u]) (buffers gltfJson) [] of
                     (deps1, Some e) \<Rightarrow> []
                   | (deps1, None) \<Rightarrow>
                       (case for_field (\<lambda>u deps. deps @ [resolve gltfDir u])
                               (images gltfJson) deps1 of
                          (deps2, Some e) \<Rightarrow> []
                        | (deps2, None) \<Rightarrow> deps2))))"

text \<open>The same document without the elements whose \<open>uri\<close> begins with \<open>data:\<close>.\<close>

fun is_data_entry :: "gltf_entry \<Rightarrow> bool" where
  "is_data_entry (Entry (UriString u)) = startsWith u ''data:''"
| "is_data_entry _ = False"

fun drop_data_field :: "array_field \<Rightarrow> array_field" where
  "drop_data_field (FieldArray xs) = FieldArray (filter (\<lambda>x. \<not> is_data_entry x) xs)"
| "drop_data_field f = f"

fun drop_data_uris :: "json_value \<Rightarrow> json_value" where
  "drop_data_uris JsonNull = JsonNull"
| "drop_data_uris (JsonDoc d) =
     JsonDoc \<lparr> buffers = drop_data_field (buffers d), images = drop_data_field (images d) \<rparr>"

subsection \<open>URI namespacing of a JSON-form asset\<close>

text \<open>
  The loops over \<open>json.buffers\<close> and \<open>json.images\<close> that rewrite \<open>uri\<close> in place when it
  is a non-empty string not beginning with \<open>data:\<close>. A \<open>null\<close> element throws.
\<close>

fun rewrite_uris :: "(string \<Rightarrow> string) \<Rightarrow> gltf_entry list \<Rightarrow> error + gltf_entry list" where
  "rewrite_uris f [] = Inr []"
| "rewrite_uris f (NullEntry # xs) = Inl TypeError"
| "rewrite_uris f (Entry (UriString u) # xs) =
     (case rewrite_uris f xs of
        Inl e \<Rightarrow> Inl e
      | Inr xs' \<Rightarrow>
          Inr (Entry (UriString (if u \<noteq> [] \<and> \<not> startsWith u ''data:'' then f u else u)) # xs'))"
| "rewrite_uris f (Entry v # xs) =
     (case rewrite_uris f xs of
        Inl e \<Rightarrow> Inl e
      | Inr xs' \<Rightarrow> Inr (Entry v # xs'))"

text \<open>\<open>if (Array.isArray(json.field)) { ... }\<close>\<close>

definition rewrite_field :: "(string \<Rightarrow> string) \<Rightarrow> array_field \<Rightarrow> error + array_field" where
  "rewrite_field f fld =
     (case fld of
        FieldArray xs \<Rightarrow>
          (case rewrite_uris f xs of Inl e \<Rightarrow> Inl e | Inr xs' \<Rightarrow> Inr (FieldArray xs'))
      | _ \<Rightarrow> Inr fld)"

definition namespacedBufferUri :: "string \<Rightarrow> string \<Rightarrow> string" where
  "namespacedBufferUri binPrefix uri = binPrefix @ stripDotSlash uri"

definition ktx2ImageUri :: "string \<Rightarrow> string" where
  "ktx2ImageUri uri = stripExtension (posix_basename uri) @ ''.ktx2''"

definition remapKey :: "string \<Rightarrow> bool \<Rightarrow> string \<Rightarrow> string" where
  "remapKey binPrefix ktx2Emitted uri =
     (let bare = stripDotSlash uri;
          lower = toLowerCase bare
      in if endsWith lower ''.bin'' then binPrefix @ bare
         else if endsWith lower ''.ktx2'' then posix_basename bare
         else if ktx2Emitted then binPrefix @ bare
         else bare)"

definition remapResources :: "string \<Rightarrow> bool \<Rightarrow> resources \<Rightarrow> resources" where
  "remapResources binPrefix ktx2Emitted res =
     foldl (\<lambda>remapped (uri, buf). AList.update (remapKey binPrefix ktx2Emitted uri) buf remapped)
       [] res"

text \<open>
  The body of the inner \<open>try\<close> of processPublicSourceGLTFFile: \<open>parsed\<close> is the outcome
  of \<open>JSON.parse(optimizedBuffer.toString('utf8'))\<close>. It yields the rewritten document
  (which the source serialises into \<open>optimizedBuffer\<close>) and the remapped resources.
\<close>

definition namespace_try ::
  "string \<Rightarrow> bool \<Rightarrow> error + json_value \<Rightarrow> resources \<Rightarrow> error + gltf_doc \<times> resources" where
  "namespace_try binPrefix ktx2Emitted parsed res =
     (case parsed of
        Inl e \<Rightarrow> Inl e
      | Inr JsonNull \<Rightarrow> Inl TypeError
      | Inr (JsonDoc json) \<Rightarrow>
          and_then (rewrite_field (namespacedBufferUri binPrefix) (buffers json)) (\<lambda>buffers'.
          and_then (if ktx2Emitted then rewrite_field ktx2ImageUri (images json)
                    else Inr (images json)) (\<lambda>images'.
          Inr (\<lparr> buffers = buffers', images = images' \<rparr>,
               remapResources binPrefix ktx2Emitted res))))"

text \<open>
  The whole step, from the detection of emitted KTX2 textures to the end of the
  \<open>if (isGLTFJson)\<close> block. The first component is \<open>None\<close> when \<open>optimizedBuffer\<close> is
  left as it was.
\<close>

definition namespaceResources ::
  "string \<Rightarrow> error + json_value \<Rightarrow> resources \<Rightarrow> gltf_doc option \<times> resources" where
  "namespaceResources gltfName parsed res =
     (let ktx2Emitted = list_ex (\<lambda>(uri, buf). endsWith (toLowerCase uri) ''.ktx2'') res;
          isGLTFJson = endsWith (toLowerCase gltfName) ''.gltf''
      in if isGLTFJson
         then (let baseName = basename_ext gltfName (extname gltfName);
                   binPrefix = baseName @ ''_bin/''
               in case namespace_try binPrefix ktx2Emitted parsed res of
                    Inr (json, remapped) \<Rightarrow> (Some json, remapped)
                  | Inl e \<Rightarrow> (None, res))
         else (None, res))"


subsection \<open>Plug-in state and life-cycle hooks\<close>

record OptimizationStat =
  name :: string
  originalTotalSize :: nat
  optimizedTotalSize :: nat

record PluginState =
  processedOptions :: ProcessedOptions
  isInitialized :: bool
  ktxAvailable :: "bool option"
  warnedAboutKTX :: bool
  dependencyFiles :: "string set"
  originalFilesToCleanup :: "string set"
  optimizationStats :: "OptimizationStat list"
  sharedKTXCache :: ktx_cache

text \<open>The state that \<open>optimizeGLTF(options)\<close> creates, once per plug-in instance.\<close>

definition initialState :: "ProcessedOptions \<Rightarrow> PluginState" where
  "initialState opts =
     \<lparr> processedOptions = opts, isInitialized = False, ktxAvailable = None,
       warnedAboutKTX = False, dependencyFiles = {}, originalFilesToCleanup = {},
       optimizationStats = [], sharedKTXCache = Map.empty \<rparr>"

datatype command = Serve | Build

text \<open>
  buildStart. \<open>ktxProbe\<close> is what \<open>checkKTXAvailable()\<close> resolves to and \<open>initResult\<close>
  what \<open>processor.initialize()\<close> does (\<open>Some e\<close>: it throws \<open>e\<close>), should they be
  called. The state is returned together with the exception that leaves the hook.
\<close>

definition buildStart ::
  "command \<Rightarrow> bool \<Rightarrow> error option \<Rightarrow> PluginState \<Rightarrow> PluginState \<times> error option" where
  "buildStart cmd ktxProbe initResult s =
     (if cmd = Serve then (s, None)
      else
        (let s1 = (if ktxAvailable s = None
                   then (let s' = s \<lparr> ktxAvailable := Some ktxProbe \<rparr>
                         in if \<not> ktxProbe
                            then s' \<lparr> warnedAboutKTX := True,
                                      processedOptions := (processedOptions s')
                                        \<lparr> textures := (textures (processedOptions s'))
                                             \<lparr> mode := Manual \<rparr> \<rparr> \<rparr>
                            else s')
                   else s)
         in if \<not> isInitialized s1
            then (case initResult of
                    Some e \<Rightarrow> (s1, Some e)
                  | None \<Rightarrow> (s1 \<lparr> isInitialized := True \<rparr>, None))
            else (s1, None)))"

text \<open>\<open>optimizationStats.push(...)\<close> in processPublicSourceGLTFFile.\<close>

definition recordStat :: "OptimizationStat \<Rightarrow> PluginState \<Rightarrow> PluginState" where
  "recordStat stat s = s \<lparr> optimizationStats := optimizationStats s @ [stat] \<rparr>"

text \<open>closeBundle: the assets that the summary lists, one line each.\<close>

definition closeBundle :: "command \<Rightarrow> PluginState \<Rightarrow> string list" where
  "closeBundle cmd s =
     (if cmd = Serve then []
      else if length (optimizationStats s) > 0 then map name (optimizationStats s)
      else [])"

section \<open>Concrete inputs\<close>

text \<open>
  The options that \<open>optimizeGLTF({})\<close> works with, a version of the library that
  records the transforms it is asked to apply (its documents are the lists of
  transforms applied so far), and one whose binary reader rejects its input.
\<close>

definition defaultOptions :: ProcessedOptions where
  "defaultOptions =
     \<lparr> level = Medium,
       include_pat = RegExp (CHR 0x5C # ''.(gltf|glb)$'') ''i'',
       exclude_pat = None,
       verbose = False,
       geometry = \<lparr> compress = Meshopt, quality = Num (75 / 100), speed = Num (5 / 10),
                    precision = Num (8 / 10) \<rparr>,
       textures = \<lparr> mode = Auto, tex_quality = Num (75 / 100), maxSize = Num 1024,
                    etc1sPatterns = [], uastcPatterns = [] \<rparr> \<rparr>"

definition traceIO :: "(transform list) NodeIO" where
  "traceIO =
     \<lparr> readJSON = (\<lambda>bs. Inr []), readBinary = (\<lambda>bs. Inr []),
       applyTransform = (\<lambda>t d. Inr (d @ [t])), writeBinary = (\<lambda>d. Inr []),
       bufferFrom = ownBuffer \<rparr>"

definition corruptIO :: "(transform list) NodeIO" where
  "corruptIO = traceIO \<lparr> readBinary := (\<lambda>bs. Inl LibraryError) \<rparr>"

text \<open>
  Simple versions of \<open>path.dirname\<close> and \<open>path.posix.join\<close>, right for relative paths
  without dot segments; they instantiate the path parameters in concrete runs.
\<close>

definition simple_dirname :: "string \<Rightarrow> string" where
  "simple_dirname p =
     (let r = dropWhile (\<lambda>c. c \<noteq> CHR ''/'') (rev p)
      in if r = [] then ''.'' else rev (tl r))"

definition simple_join :: "string \<Rightarrow> string \<Rightarrow> string" where
  "simple_join d u = (if d = ''.'' then u else d @ ''/'' @ u)"

text \<open>
  A binary container of 52 bytes: the header (\<open>glTF\<close>, version 2, length 52), the
  chunk length 32 at bytes 12-15, the chunk type \<open>JSON\<close>, and from byte 20 the 32 bytes
  of a JSON text with one buffer whose \<open>uri\<close> is \<open>data.bin\<close>. \<open>fixtureParse\<close> is a
  \<open>JSON.parse\<close> that knows this one text.
\<close>

definition fixtureJson :: "byte list" where
  "fixtureJson =
     [123, 34, 98, 117, 102, 102, 101, 114, 115, 34, 58, 91, 123, 34, 117, 114, 105, 34,
      58, 34, 100, 97, 116, 97, 46, 98, 105, 110, 34, 125, 93, 125]"

definition fixtureGlb :: "byte list" where
  "fixtureGlb =
     [103, 108, 84, 70, 2, 0, 0, 0, 52, 0, 0, 0, 32, 0, 0, 0, 74, 83, 79, 78] @ fixtureJson"

definition fixtureParse :: "byte list \<Rightarrow> error + json_value" where
  "fixtureParse bs =
     (if bs = fixtureJson
      then Inr (JsonDoc \<lparr> buffers = FieldArray [Entry (UriString ''data.bin'')],
                          images = FieldMissing \<rparr>)
      else Inl SyntaxError)"

text \<open>
  The same container as a view at offset 8 of a larger ArrayBuffer, as a buffer carved
  from Node's allocation pool is.
\<close>

definition pooledGlb :: Buffer where
  "pooledGlb =
     \<lparr> buffer = [0, 0, 0, 0, 0, 0, 0, 0] @ fixtureGlb @ [0, 0, 0, 0],
       byteOffset = 8, byteLength = 52 \<rparr>"







section \<open>Properties of the number model\<close>

text \<open>
  Rounding to the nearest double is monotone, keeps every integer below \<open>2^53\<close> in
  absolute value, and keeps a result between two such integers between them.
\<close>

lemma powi_pos: "(0::real) < 2 powi e"
  by (simp add: power_int_def)

lemma powi_strict_mono: "a < b \<Longrightarrow> (2::real) powi a < 2 powi b"
  by (rule power_int_strict_increasing) simp_all

lemma powi_mono: "a \<le> b \<Longrightarrow> (2::real) powi a \<le> 2 powi b"
  by (rule power_int_increasing) simp_all

lemma powi_less_cancel: "(2::real) powi a < 2 powi b \<Longrightarrow> a < b"
  using powi_mono [of b a] by (cases "a < b") auto

lemma binade_bounds:
  assumes "0 < x"
  shows "2 powi (binade x) \<le> x \<and> x < 2 powi (binade x + 1)"
proof (cases "1 \<le> x")
  case True
  define m where "m = \<lfloor>x\<rfloor>"
  have m: "0 < m" using True by (simp add: m_def)
  have b: "2 ^ nat (bitlen m - 1) \<le> m" "m < 2 ^ nat (bitlen m)"
    using bitlen_bounds [OF m] by simp_all
  have p: "1 \<le> bitlen m" using m by (simp add: bitlen_alt_def)
  have e: "binade x = bitlen m - 1" using True by (simp add: binade_def m_def)
  have "(2::real) powi (bitlen m - 1) = of_int (2 ^ nat (bitlen m - 1))"
    using p by (simp add: power_int_def)
  also have "\<dots> \<le> of_int m" using b(1) by (simp only: of_int_le_iff)
  also have "\<dots> \<le> x" by (simp add: m_def)
  finally have lo: "2 powi (binade x) \<le> x" by (simp add: e)
  have "m + 1 \<le> 2 ^ nat (bitlen m)" using b(2) by simp
  then have "(of_int (m + 1) :: real) \<le> of_int (2 ^ nat (bitlen m))"
    by (simp only: of_int_le_iff)
  moreover have "x < of_int (m + 1)" by (simp add: m_def)
  moreover have "(2::real) powi (bitlen m) = of_int (2 ^ nat (bitlen m))"
    using p by (simp add: power_int_def)
  ultimately have hi: "x < 2 powi (binade x + 1)" by (simp add: e)
  show ?thesis using lo hi ..
next
  case False
  define m where "m = \<lceil>1 / x\<rceil>"
  have x1: "1 < 1 / x" using False assms by simp
  then have m2: "2 \<le> m" unfolding m_def by linarith
  then have m: "0 < m - 1" by simp
  define n where "n = bitlen (m - 1)"
  have b: "2 ^ nat (n - 1) \<le> m - 1" "m - 1 < 2 ^ nat n"
    using bitlen_bounds [OF m] by (simp_all add: n_def)
  have p: "1 \<le> n" using m by (simp add: bitlen_alt_def n_def)
  have e: "binade x = - n" using False by (simp add: binade_def m_def n_def)
  have "1 / x \<le> of_int m" by (simp add: m_def)
  also have "(of_int m :: real) \<le> of_int (2 ^ nat n)" using b(2) by (simp only: of_int_le_iff)
  finally have "1 / x \<le> 2 ^ nat n" by simp
  then have "1 \<le> 2 ^ nat n * x" using assms by (simp add: field_simps)
  then have lo: "2 powi (- n) \<le> x"
    using p by (simp add: power_int_def field_simps)
  have "(of_int (2 ^ nat (n - 1)) :: real) \<le> of_int (m - 1)" using b(1) by (simp only: of_int_le_iff)
  moreover have "of_int (m - 1) < 1 / x" unfolding m_def by linarith
  ultimately have "2 ^ nat (n - 1) < 1 / x" by simp
  then have "2 ^ nat (n - 1) * x < 1" using assms by (simp add: field_simps)
  then have "x < 1 / 2 ^ nat (n - 1)" by (simp add: field_simps)
  moreover have "(2::real) powi (- n + 1) = 1 / 2 ^ nat (n - 1)"
    using p by (cases "n = 1") (simp_all add: power_int_def field_simps)
  ultimately have hi: "x < 2 powi (- n + 1)" by simp
  show ?thesis using lo hi by (simp add: e)
qed

lemma binade_mono:
  assumes "0 < x" "x \<le> y"
  shows "binade x \<le> binade y"
proof -
  have "2 powi (binade x) \<le> x" using binade_bounds [OF assms(1)] by simp
  also have "x \<le> y" by fact
  also have "y < 2 powi (binade y + 1)" using binade_bounds [of y] assms by simp
  finally have "binade x < binade y + 1" by (rule powi_less_cancel)
  then show ?thesis by simp
qed

lemma binade_less:
  assumes "0 < x" "x < 2 powi k"
  shows "binade x < k"
proof -
  have "2 powi (binade x) \<le> x" using binade_bounds [OF assms(1)] by simp
  also have "x < 2 powi k" by fact
  finally show ?thesis by (rule powi_less_cancel)
qed

lemma binade_ge:
  assumes "2 powi k \<le> x"
  shows "k \<le> binade x"
proof -
  have x: "0 < x" using powi_pos [of k] assms by linarith
  have "2 powi k \<le> x" by fact
  also have "x < 2 powi (binade x + 1)" using binade_bounds [OF x] by simp
  finally have "k < binade x + 1" by (rule powi_less_cancel)
  then show ?thesis by simp
qed

lemma round_even_int [simp]: "round_even (of_int k) = k"
  by (simp add: round_even_def)

lemma round_even_mono:
  assumes "a \<le> b"
  shows "round_even a \<le> round_even b"
proof -
  have fl: "\<lfloor>a\<rfloor> \<le> \<lfloor>b\<rfloor>" using assms by (rule floor_mono)
  show ?thesis
  proof (cases "\<lfloor>a\<rfloor> = \<lfloor>b\<rfloor>")
    case True
    then show ?thesis using assms by (auto simp: round_even_def Let_def)
  next
    case False
    then have "\<lfloor>a\<rfloor> + 1 \<le> \<lfloor>b\<rfloor>" using fl by simp
    moreover have "round_even a \<le> \<lfloor>a\<rfloor> + 1" by (simp add: round_even_def Let_def)
    moreover have "\<lfloor>b\<rfloor> \<le> round_even b" by (simp add: round_even_def Let_def)
    ultimately show ?thesis by linarith
  qed
qed

lemma spacing_pos: "0 < spacing x"
  by (simp add: spacing_def powi_pos)

lemma spacing_times: "2 powi k * spacing x = 2 powi (k + max (binade x) (- 1022) - 52)"
  by (simp add: spacing_def power_int_add [symmetric] algebra_simps)

lemma nearest_upper:
  assumes "0 < x"
  shows "nearest x \<le> 2 powi (max (binade x) (- 1022) + 1)"
proof -
  let ?E = "max (binade x) (- 1022)"
  have "x < 2 powi (binade x + 1)" using binade_bounds [OF assms] by simp
  also have "\<dots> \<le> 2 powi (?E + 1)" by (rule powi_mono) simp
  also have "\<dots> = 2 powi 53 * spacing x" using spacing_times [of 53 x] by (simp add: add.commute)
  finally have "x / spacing x \<le> 2 powi 53"
    using spacing_pos [of x] by (simp add: field_simps)
  also have "(2::real) powi 53 = of_int (2 ^ 53)" by simp
  finally have "round_even (x / spacing x) \<le> round_even (of_int (2 ^ 53))"
    by (rule round_even_mono)
  then have "round_even (x / spacing x) \<le> 2 ^ 53" by (simp only: round_even_int)
  then have "(of_int (round_even (x / spacing x)) :: real) \<le> of_int (2 ^ 53)"
    by (simp only: of_int_le_iff)
  then have "nearest x \<le> of_int (2 ^ 53) * spacing x"
    unfolding nearest_def using spacing_pos [of x] by (simp only: mult_le_cancel_right_pos)
  also have "\<dots> = 2 powi 53 * spacing x" by simp
  also have "\<dots> = 2 powi (?E + 1)" using spacing_times [of 53 x] by (simp add: add.commute)
  finally show ?thesis .
qed

lemma nearest_lower:
  assumes "0 < x" "- 1022 \<le> binade x"
  shows "2 powi (binade x) \<le> nearest x"
proof -
  have E: "max (binade x) (- 1022) = binade x" using assms(2) by simp
  have sp52: "2 powi 52 * spacing x = 2 powi (binade x)"
    using spacing_times [of 52 x] by (simp add: E)
  note sp52
  moreover have "2 powi (binade x) \<le> x" using binade_bounds [OF assms(1)] by simp
  ultimately have "2 powi 52 \<le> x / spacing x"
    using spacing_pos [of x] by (simp add: field_simps)
  moreover have "(2::real) powi 52 = of_int (2 ^ 52)" by simp
  ultimately have "round_even (of_int (2 ^ 52)) \<le> round_even (x / spacing x)"
    by (intro round_even_mono) simp
  then have "2 ^ 52 \<le> round_even (x / spacing x)" by (simp only: round_even_int)
  then have "(of_int (2 ^ 52) :: real) \<le> of_int (round_even (x / spacing x))"
    by (simp only: of_int_le_iff)
  then have "of_int (2 ^ 52) * spacing x \<le> nearest x"
    unfolding nearest_def using spacing_pos [of x] by (simp only: mult_le_cancel_right_pos)
  moreover have "of_int (2 ^ 52) * spacing x = 2 powi 52 * spacing x" by simp
  ultimately show ?thesis using sp52 by simp
qed

lemma nearest_nonneg:
  assumes "0 < x"
  shows "0 \<le> nearest x"
proof -
  have "0 \<le> x / spacing x" using assms spacing_pos [of x] by simp
  then have "round_even (of_int 0) \<le> round_even (x / spacing x)"
    by (intro round_even_mono) simp
  then have "0 \<le> round_even (x / spacing x)" by (simp only: round_even_int)
  then show ?thesis unfolding nearest_def using spacing_pos [of x] by simp
qed

lemma nearest_mono:
  assumes "0 < x" "x \<le> y"
  shows "nearest x \<le> nearest y"
proof -
  have y: "0 < y" using assms by simp
  let ?Ex = "max (binade x) (- 1022)" and ?Ey = "max (binade y) (- 1022)"
  have b: "binade x \<le> binade y" using binade_mono [OF assms] .
  show ?thesis
  proof (cases "?Ex = ?Ey")
    case True
    then have s: "spacing x = spacing y" by (simp add: spacing_def)
    have "x / spacing y \<le> y / spacing y"
      using assms(2) spacing_pos [of y] by (simp add: divide_right_mono)
    then have "round_even (x / spacing y) \<le> round_even (y / spacing y)"
      by (rule round_even_mono)
    then have "(of_int (round_even (x / spacing y)) :: real) \<le> of_int (round_even (y / spacing y))"
      by (simp only: of_int_le_iff)
    then show ?thesis
      unfolding nearest_def s using spacing_pos [of y] by (simp only: mult_le_cancel_right_pos)
  next
    case False
    then have lt: "?Ex < ?Ey" using b unfolding max_def by (auto split: if_splits)
    then have ny: "- 1022 \<le> binade y" and Ey: "?Ey = binade y"
      unfolding max_def by (auto split: if_splits)
    have "nearest x \<le> 2 powi (?Ex + 1)" by (rule nearest_upper [OF assms(1)])
    also have "\<dots> \<le> 2 powi (binade y)" using lt Ey by (intro powi_mono) linarith
    also have "\<dots> \<le> nearest y" by (rule nearest_lower [OF y ny])
    finally show ?thesis .
  qed
qed

lemma nearest_int:
  assumes "0 < k" "k < 2 ^ 53"
  shows "nearest (of_int k) = of_int k"
proof -
  let ?x = "of_int k :: real"
  have x: "0 < ?x" using assms(1) by simp
  have "?x < of_int (2 ^ 53)" using assms(2) by (simp only: of_int_less_iff)
  then have "?x < 2 powi 53" by simp
  then have hi: "binade ?x < 53" by (rule binade_less [OF x])
  have "(2::real) powi 0 \<le> ?x" using assms(1) by simp
  then have lo: "0 \<le> binade ?x" by (rule binade_ge)
  define n where "n = nat (52 - binade ?x)"
  have E: "max (binade ?x) (- 1022) = binade ?x" using lo by simp
  have sp: "spacing ?x = 1 / 2 ^ n"
    using hi lo by (simp add: spacing_def E n_def power_int_def inverse_eq_divide power_one_over)
  have "?x / spacing ?x = of_int (k * 2 ^ n)" by (simp add: sp)
  then have "round_even (?x / spacing ?x) = k * 2 ^ n" by (simp only: round_even_int)
  then show ?thesis by (simp add: nearest_def sp)
qed

lemma round_pos_mono:
  assumes "0 < x" "x \<le> y"
  shows "js_le (round_pos x) (round_pos y)"
  using nearest_mono [OF assms] by (auto simp: round_pos_def)

lemma round_pos_nonneg:
  assumes "0 < x"
  shows "js_le (Num 0) (round_pos x)"
  using nearest_nonneg [OF assms] by (simp add: round_pos_def)

lemma js_le_neg: "js_le a b \<Longrightarrow> js_le (js_neg b) (js_neg a)"
  by (cases a; cases b) simp_all

lemma js_le_trans: "js_le a b \<Longrightarrow> js_le b c \<Longrightarrow> js_le a c"
  by (cases a; cases b; cases c) simp_all

lemma double_mono:
  assumes "x \<le> y"
  shows "js_le (double x) (double y)"
proof -
  consider "0 < x" | "x = 0" "y = 0" | "x = 0" "0 < y" | "x < 0" "y < 0" | "x < 0" "y = 0"
    | "x < 0" "0 < y"
    using assms by linarith
  then show ?thesis
  proof cases
    case 1
    then have "0 < y" using assms by simp
    then show ?thesis using 1 round_pos_mono [OF 1 assms] by (simp add: double_def)
  next
    case 2
    then show ?thesis by (simp add: double_def)
  next
    case 3
    then show ?thesis using round_pos_nonneg [of y] by (simp add: double_def)
  next
    case 4
    then have "js_le (round_pos (- y)) (round_pos (- x))"
      using assms by (intro round_pos_mono) simp_all
    then show ?thesis using 4 by (simp add: double_def js_le_neg)
  next
    case 5
    have "js_le (js_neg (round_pos (- x))) (js_neg (Num 0))"
      using 5 by (intro js_le_neg round_pos_nonneg) simp
    then show ?thesis using 5 by (simp add: double_def)
  next
    case 6
    have a: "js_le (js_neg (round_pos (- x))) (js_neg (Num 0))"
      using 6 by (intro js_le_neg round_pos_nonneg) simp
    have b: "js_le (Num 0) (round_pos y)" using 6 by (intro round_pos_nonneg)
    have "js_le (js_neg (round_pos (- x))) (round_pos y)"
      using js_le_trans [OF a] b by simp
    then show ?thesis using 6 by (simp add: double_def)
  qed
qed

lemma round_pos_int:
  assumes "0 < k" "k < 2 ^ 53"
  shows "round_pos (of_int k) = Num (of_int k)"
proof -
  have "(of_int k :: real) < of_int (2 ^ 53)" using assms(2) by (simp only: of_int_less_iff)
  also have "\<dots> \<le> 2 powi 1024" by simp
  finally show ?thesis by (simp add: round_pos_def nearest_int [OF assms])
qed

lemma double_int:
  assumes "\<bar>k\<bar> < 2 ^ 53"
  shows "double (of_int k) = Num (of_int k)"
proof -
  consider "k = 0" | "0 < k" | "k < 0" by linarith
  then show ?thesis
  proof cases
    case 1
    then show ?thesis by (simp add: double_def)
  next
    case 2
    then show ?thesis using round_pos_int [of k] assms by (simp add: double_def)
  next
    case 3
    then have "round_pos (of_int (- k)) = Num (of_int (- k))"
      using assms by (intro round_pos_int) simp_all
    then show ?thesis using 3 by (simp add: double_def)
  qed
qed

lemma double_between:
  assumes "of_int lo \<le> x" "x \<le> of_int hi" "\<bar>lo\<bar> < 2 ^ 53" "\<bar>hi\<bar> < 2 ^ 53"
  shows "\<exists>r. double x = Num r \<and> of_int lo \<le> r \<and> r \<le> of_int hi"
proof -
  have a: "js_le (Num (of_int lo)) (double x)"
    using double_mono [OF assms(1)] by (simp add: double_int [OF assms(3)])
  have b: "js_le (double x) (Num (of_int hi))"
    using double_mono [OF assms(2)] by (simp add: double_int [OF assms(4)])
  show ?thesis using a b by (cases "double x") simp_all
qed

lemma round_scaled:
  assumes "0 \<le> a" "a \<le> 1" "0 \<le> k" "k < 2 ^ 52"
  shows "\<exists>n. Math_round (js_mul (Num a) (Num (of_int k))) = Num (of_int n) \<and> 0 \<le> n \<and> n \<le> k"
proof -
  have lo: "of_int 0 \<le> a * of_int k" using assms by simp
  have hi: "a * of_int k \<le> of_int k"
    using assms by (simp add: mult_left_le_one_le mult.commute)
  obtain r where r: "double (a * of_int k) = Num r" "0 \<le> r" "r \<le> of_int k"
    using double_between [OF lo hi] assms by auto
  have "0 \<le> \<lfloor>r + 1 / 2\<rfloor>" using r(2) by simp
  moreover have "r + 1 / 2 < of_int k + 1" using r(3) by simp
  then have "\<lfloor>r + 1 / 2\<rfloor> \<le> k" by (simp add: floor_le_iff)
  ultimately show ?thesis by (simp add: r(1))
qed

lemma round_scaled_mono:
  assumes "a \<le> b" "0 \<le> k"
    and "Math_round (js_mul (Num a) (Num (of_int k))) = Num (of_int m)"
    and "Math_round (js_mul (Num b) (Num (of_int k))) = Num (of_int n)"
  shows "m \<le> n"
proof -
  have "a * of_int k \<le> b * of_int k" using assms(1,2) by (simp add: mult_right_mono)
  then have le: "js_le (double (a * of_int k)) (double (b * of_int k))" by (rule double_mono)
  show ?thesis
  proof (cases "double (a * of_int k)")
    case (Num ra)
    show ?thesis
    proof (cases "double (b * of_int k)")
      case (Num rb)
      have "ra \<le> rb" using le \<open>double (a * of_int k) = Num ra\<close> Num by simp
      then have "\<lfloor>ra + 1 / 2\<rfloor> \<le> \<lfloor>rb + 1 / 2\<rfloor>" by (intro floor_mono) simp
      moreover have "m = \<lfloor>ra + 1 / 2\<rfloor>" using assms(3) \<open>double (a * of_int k) = Num ra\<close> by simp
      moreover have "n = \<lfloor>rb + 1 / 2\<rfloor>" using assms(4) Num by simp
      ultimately show ?thesis by simp
    qed (use assms(4) in simp_all)
  qed (use assms(3) in simp_all)
qed

lemma add_small_ints:
  assumes "\<bar>c + n\<bar> < 2 ^ 53"
  shows "js_add (Num (of_int c)) (Num (of_int n)) = Num (of_int (c + n))"
  using double_int [OF assms] by simp

section \<open>Properties of the compression mapper\<close>

lemma clamp01_cases:
  "clamp01 x =
     (case x of NaN \<Rightarrow> NaN | PInf \<Rightarrow> Num 1 | NInf \<Rightarrow> Num 0
      | Num a \<Rightarrow> Num (max 0 (min 1 a)))"
  by (cases x) (simp_all add: clamp01_def)

lemma clamp01_Num: "\<not> isNaN x \<Longrightarrow> \<exists>a. clamp01 x = Num a \<and> 0 \<le> a \<and> a \<le> 1"
  by (cases x) (auto simp: clamp01_cases)

lemma clamp01_mono:
  "js_le x y \<Longrightarrow> clamp01 x = Num a \<Longrightarrow> clamp01 y = Num b \<Longrightarrow> a \<le> b"
  by (cases x; cases y) (auto simp: clamp01_cases)

text \<open>
  The bit depth \<open>c + Math.round(a * k)\<close> for a clamped \<open>a\<close>: an integer from \<open>c\<close> to
  \<open>c + k\<close>, which does not decrease when \<open>a\<close> increases.
\<close>

lemma depth_value:
  assumes "0 \<le> a" "a \<le> 1" "0 \<le> k" "k < 1000" "0 \<le> c" "c < 1000"
  shows "\<exists>n. js_add (Num (of_int c)) (Math_round (js_mul (Num a) (Num (of_int k)))) =
              Num (of_int (c + n)) \<and>
            Math_round (js_mul (Num a) (Num (of_int k))) = Num (of_int n) \<and> 0 \<le> n \<and> n \<le> k"
proof -
  obtain n where n: "Math_round (js_mul (Num a) (Num (of_int k))) = Num (of_int n)"
      "0 \<le> n" "n \<le> k"
    using round_scaled [of a k] assms by auto
  have "\<bar>c + n\<bar> < 2 ^ 53" using n(2,3) assms(4,5,6) by simp
  then have "js_add (Num (of_int c)) (Num (of_int n)) = Num (of_int (c + n))"
    by (rule add_small_ints)
  then show ?thesis using n by auto
qed

lemma depth_range_mono:
  assumes a: "0 \<le> a" "a \<le> 1" and b: "0 \<le> b" "b \<le> 1"
    and k: "0 \<le> k" "k < 1000" and c: "0 \<le> c" "c < 1000"
  shows "in_range (of_int c) (of_int (c + k))
           (js_add (Num (of_int c)) (Math_round (js_mul (Num a) (Num (of_int k))))) \<and>
         (a \<le> b \<longrightarrow>
            js_le (js_add (Num (of_int c)) (Math_round (js_mul (Num a) (Num (of_int k)))))
                  (js_add (Num (of_int c)) (Math_round (js_mul (Num b) (Num (of_int k))))))"
proof -
  obtain m where m: "js_add (Num (of_int c)) (Math_round (js_mul (Num a) (Num (of_int k)))) =
      Num (of_int (c + m))" "Math_round (js_mul (Num a) (Num (of_int k))) = Num (of_int m)"
      "0 \<le> m" "m \<le> k"
    using depth_value [OF a k c] by blast
  obtain n where n: "js_add (Num (of_int c)) (Math_round (js_mul (Num b) (Num (of_int k)))) =
      Num (of_int (c + n))" "Math_round (js_mul (Num b) (Num (of_int k))) = Num (of_int n)"
      "0 \<le> n" "n \<le> k"
    using depth_value [OF b k c] by blast
  have r: "in_range (of_int c) (of_int (c + k)) (Num (of_int (c + m)))"
    using m(3,4) by (simp add: in_range_def)
  have mn: "m \<le> n" if "a \<le> b"
    using round_scaled_mono [OF that k(1) m(2) n(2)] .
  show ?thesis unfolding m(1) n(1) using r mn by simp
qed


text \<open>
  Claim C7, as the code has it. For every precision that is not NaN (out-of-range
  values and the infinities included, which the clamp brings into the unit interval)
  the position, normal and texcoord bit depths of toQuantizationBits lie within 10-16,
  8-10 and 10-12, and they do not decrease when the precision increases; the colour and
  weight depths are 8. The products are rounded to doubles before \<open>Math.round\<close>, as in
  the code. For a NaN precision the clamp returns NaN: the three variable depths are
  NaN, the colour and weight depths are 8.
\<close>

theorem toQuantizationBits_range_monotone:
  assumes "\<not> isNaN p1" and "\<not> isNaN p2"
  shows "in_range 10 16 (quantizePosition (toQuantizationBits p1)) \<and>
         in_range 8 10 (quantizeNormal (toQuantizationBits p1)) \<and>
         in_range 10 12 (quantizeTexcoord (toQuantizationBits p1)) \<and>
         quantizeColor (toQuantizationBits p1) = Num 8 \<and>
         quantizeWeight (toQuantizationBits p1) = Num 8 \<and>
         (if js_le p1 p2
          then js_le (quantizePosition (toQuantizationBits p1))
                 (quantizePosition (toQuantizationBits p2)) \<and>
               js_le (quantizeNormal (toQuantizationBits p1))
                 (quantizeNormal (toQuantizationBits p2)) \<and>
               js_le (quantizeTexcoord (toQuantizationBits p1))
                 (quantizeTexcoord (toQuantizationBits p2))
          else True) \<and>
         quantizePosition (toQuantizationBits NaN) = NaN \<and>
         quantizeNormal (toQuantizationBits NaN) = NaN \<and>
         quantizeTexcoord (toQuantizationBits NaN) = NaN \<and>
         quantizeColor (toQuantizationBits NaN) = Num 8 \<and>
         quantizeWeight (toQuantizationBits NaN) = Num 8"
proof -
  obtain a where a: "clamp01 p1 = Num a" "0 \<le> a" "a \<le> 1"
    using clamp01_Num [OF assms(1)] by blast
  obtain b where b: "clamp01 p2 = Num b" "0 \<le> b" "b \<le> 1"
    using clamp01_Num [OF assms(2)] by blast
  have pos: "in_range 10 16 (js_add (Num 10) (Math_round (js_mul (Num a) (Num 6)))) \<and>
      (a \<le> b \<longrightarrow> js_le (js_add (Num 10) (Math_round (js_mul (Num a) (Num 6))))
                       (js_add (Num 10) (Math_round (js_mul (Num b) (Num 6)))))"
    using depth_range_mono [OF a(2,3) b(2,3), of 6 10] by simp
  have nor: "in_range 8 10 (js_add (Num 8) (Math_round (js_mul (Num a) (Num 2)))) \<and>
      (a \<le> b \<longrightarrow> js_le (js_add (Num 8) (Math_round (js_mul (Num a) (Num 2))))
                       (js_add (Num 8) (Math_round (js_mul (Num b) (Num 2)))))"
    using depth_range_mono [OF a(2,3) b(2,3), of 2 8] by simp
  have tex: "in_range 10 12 (js_add (Num 10) (Math_round (js_mul (Num a) (Num 2)))) \<and>
      (a \<le> b \<longrightarrow> js_le (js_add (Num 10) (Math_round (js_mul (Num a) (Num 2))))
                       (js_add (Num 10) (Math_round (js_mul (Num b) (Num 2)))))"
    using depth_range_mono [OF a(2,3) b(2,3), of 2 10] by simp
  have ranges:
    "in_range 10 16 (quantizePosition (toQuantizationBits p1)) \<and>
     in_range 8 10 (quantizeNormal (toQuantizationBits p1)) \<and>
     in_range 10 12 (quantizeTexcoord (toQuantizationBits p1))"
    using pos nor tex by (simp add: toQuantizationBits_def a(1))
  have fixed:
    "quantizeColor (toQuantizationBits p1) = Num 8 \<and>
     quantizeWeight (toQuantizationBits p1) = Num 8"
    by (simp add: toQuantizationBits_def Let_def)
  have mono:
    "js_le (quantizePosition (toQuantizationBits p1))
       (quantizePosition (toQuantizationBits p2)) \<and>
     js_le (quantizeNormal (toQuantizationBits p1))
       (quantizeNormal (toQuantizationBits p2)) \<and>
     js_le (quantizeTexcoord (toQuantizationBits p1))
       (quantizeTexcoord (toQuantizationBits p2))"
    if le: "js_le p1 p2"
  proof -
    have ab: "a \<le> b" using clamp01_mono [OF le a(1) b(1)] .
    show ?thesis using pos nor tex ab by (simp add: toQuantizationBits_def a(1) b(1))
  qed
  have nan:
    "quantizePosition (toQuantizationBits NaN) = NaN \<and>
     quantizeNormal (toQuantizationBits NaN) = NaN \<and>
     quantizeTexcoord (toQuantizationBits NaN) = NaN \<and>
     quantizeColor (toQuantizationBits NaN) = Num 8 \<and>
     quantizeWeight (toQuantizationBits NaN) = Num 8"
    by (simp add: toQuantizationBits_def clamp01_def)
  show ?thesis using ranges fixed mono nan by simp
qed

text \<open>
  Claim C7, witness: precision 0.5 against an infinite precision. Both are not NaN and
  0.5 is below the infinity; 0.5 gives a position depth within 10-16 and at most the
  depth of the larger input.
\<close>

theorem toQuantizationBits_range_monotone_witness:
  "\<not> isNaN (Num (1 / 2)) \<and> \<not> isNaN PInf \<and> js_le (Num (1 / 2)) PInf \<and>
   in_range 10 16 (quantizePosition (toQuantizationBits (Num (1 / 2)))) \<and>
   js_le (quantizePosition (toQuantizationBits (Num (1 / 2))))
     (quantizePosition (toQuantizationBits PInf))"
  using toQuantizationBits_range_monotone [of "Num (1 / 2)" PInf] by simp

text \<open>
  Claim C7, counterexample to "for all precision inputs": \<open>Math.max(0, Math.min(1, NaN))\<close>
  is NaN, so for a NaN precision the position bit depth is NaN, which is not within
  10-16.
\<close>

theorem toQuantizationBits_NaN_counterexample:
  "\<not> in_range 10 16 (quantizePosition (toQuantizationBits NaN))"
  by (simp add: toQuantizationBits_def clamp01_def in_range_def)

text \<open>
  The rounding of the product is visible in the result: the double nearest to \<open>1/12\<close>,
  which is \<open>6004799503160661 / 2^56\<close>, times 6 lies half-way between two doubles and is
  rounded to 0.5, so this precision gets 11 position bits; the exact product is below
  0.5.
\<close>

lemma binade_tie: "binade (18014398509481983 / 36028797018963968) = - 2"
proof -
  have "\<lceil>1 / (18014398509481983 / 36028797018963968 :: real)\<rceil> = 3"
    by (simp add: ceiling_eq_iff)
  then show ?thesis by (simp add: binade_def bitlen_alt_def)
qed

lemma nearest_tie: "nearest (18014398509481983 / 36028797018963968) = 1 / 2"
proof -
  have s: "spacing (18014398509481983 / 36028797018963968) = 1 / 18014398509481984"
    by (simp add: spacing_def binade_tie power_int_minus)
  have f: "\<lfloor>(18014398509481983 / 2 :: real)\<rfloor> = 9007199254740991"
    by (simp add: floor_eq_iff)
  have q: "(18014398509481983 / 36028797018963968 / (1 / 18014398509481984) :: real) =
      18014398509481983 / 2"
    by simp
  have r: "round_even (18014398509481983 / 36028797018963968 / (1 / 18014398509481984)) =
      9007199254740992"
    unfolding q by (simp add: round_even_def f Let_def)
  show ?thesis by (simp only: nearest_def s r)
qed

lemma toQuantizationBits_tie:
  "quantizePosition (toQuantizationBits (Num (6004799503160661 / 72057594037927936))) = Num 11"
proof -
  have c: "clamp01 (Num (6004799503160661 / 72057594037927936)) =
      Num (6004799503160661 / 72057594037927936)"
    by (simp add: clamp01_cases)
  have e: "(6004799503160661 / 72057594037927936 :: real) * 6 =
      18014398509481983 / 36028797018963968"
    by simp
  have m: "js_mul (Num (6004799503160661 / 72057594037927936)) (Num 6) = Num (1 / 2)"
    by (simp only: js_mul.simps e) (simp add: double_def round_pos_def nearest_tie)
  have "double (of_int 11) = Num (of_int 11)"
    by (rule double_int) simp
  then have a: "double 11 = Num 11"
    by simp
  show ?thesis
    by (simp only: toQuantizationBits_def Let_def c m) (simp add: a)
qed




section \<open>Properties of the preset manager\<close>

text \<open>
  Claim C10. processOptions of the empty object equals processOptions of
  \<open>{level: 'medium'}\<close>: the base defaults and the medium preset agree on every field
  that the preset sets.
\<close>

theorem processOptions_empty_eq_medium:
  "processOptions empty_options = processOptions (empty_options \<lparr> level_opt := Some Medium \<rparr>)"
  by (simp add: processOptions_def deepMerge_def merge_options_def deepMerge_geometry_def
      deepMerge_textures_def merge_geometry_def merge_textures_def assign_value_def
      empty_options_def empty_geometry_def empty_textures_def baseDefaults_def)

lemma assign_value_Some: "r \<noteq> None \<Longrightarrow> assign_value r v \<noteq> None"
  by (simp add: assign_value_def split: option.splits)

lemma merge_geometry_required:
  "as_RequiredGeometry r \<noteq> None \<Longrightarrow> as_RequiredGeometry (merge_geometry r g) \<noteq> None"
  by (auto simp: as_RequiredGeometry_def merge_geometry_def assign_value_def split: option.splits)

lemma merge_textures_required:
  "as_RequiredTextures r \<noteq> None \<Longrightarrow> as_RequiredTextures (merge_textures r t) \<noteq> None"
  by (auto simp: as_RequiredTextures_def merge_textures_def assign_value_def split: option.splits)

lemma deepMerge_geometry_pair:
  "deepMerge_geometry [r, g] = merge_geometry r g"
  by (cases r) (simp add: deepMerge_geometry_def merge_geometry_def empty_geometry_def assign_value_def split: option.splits)

lemma deepMerge_textures_pair:
  "deepMerge_textures [r, t] = merge_textures r t"
  by (cases r) (simp add: deepMerge_textures_def merge_textures_def empty_textures_def assign_value_def split: option.splits)

lemma as_ProcessedOptions_Some_iff:
  "(as_ProcessedOptions r \<noteq> None) =
   (level_opt r \<noteq> None \<and> include_opt r \<noteq> None \<and> verbose_opt r \<noteq> None \<and>
    (\<exists>g. geometry_opt r = Some g \<and> as_RequiredGeometry g \<noteq> None) \<and>
    (\<exists>t. textures_opt r = Some t \<and> as_RequiredTextures t \<noteq> None))"
  by (auto simp: as_ProcessedOptions_def split: option.splits Option.bind_splits)

lemma merge_options_required:
  assumes "as_ProcessedOptions r \<noteq> None"
  shows "as_ProcessedOptions (merge_options r obj) \<noteq> None"
proof -
  from assms obtain g t where r:
    "level_opt r \<noteq> None" "include_opt r \<noteq> None" "verbose_opt r \<noteq> None"
    "geometry_opt r = Some g" "as_RequiredGeometry g \<noteq> None"
    "textures_opt r = Some t" "as_RequiredTextures t \<noteq> None"
    unfolding as_ProcessedOptions_Some_iff by blast
  have g: "\<exists>g'. geometry_opt (merge_options r obj) = Some g' \<and> as_RequiredGeometry g' \<noteq> None"
  proof (cases "geometry_opt obj")
    case None
    then show ?thesis using r(4,5) by (simp add: merge_options_def)
  next
    case (Some a)
    then have "geometry_opt (merge_options r obj) = Some (merge_geometry g a)"
      using r(4) by (simp add: merge_options_def deepMerge_geometry_pair)
    then show ?thesis using merge_geometry_required [OF r(5), of a] by blast
  qed
  have t: "\<exists>t'. textures_opt (merge_options r obj) = Some t' \<and> as_RequiredTextures t' \<noteq> None"
  proof (cases "textures_opt obj")
    case None
    then show ?thesis using r(6,7) by (simp add: merge_options_def)
  next
    case (Some a)
    then have "textures_opt (merge_options r obj) = Some (merge_textures t a)"
      using r(6) by (simp add: merge_options_def deepMerge_textures_pair)
    then show ?thesis using merge_textures_required [OF r(7), of a] by blast
  qed
  have s: "level_opt (merge_options r obj) \<noteq> None" "include_opt (merge_options r obj) \<noteq> None"
    "verbose_opt (merge_options r obj) \<noteq> None"
    using r(1,2,3) by (simp_all add: merge_options_def assign_value_Some)
  show ?thesis unfolding as_ProcessedOptions_Some_iff using g t s by blast
qed

lemma exclude_update_required:
  "as_ProcessedOptions r \<noteq> None \<Longrightarrow> as_ProcessedOptions (r \<lparr> exclude_opt := None \<rparr>) \<noteq> None"
  unfolding as_ProcessedOptions_Some_iff by simp

lemma base_required: "as_ProcessedOptions (merge_options empty_options baseDefaults) \<noteq> None"
  unfolding as_ProcessedOptions_Some_iff
  by (simp add: merge_options_def baseDefaults_def empty_options_def assign_value_def
      deepMerge_geometry_pair deepMerge_textures_pair merge_geometry_def merge_textures_def
      empty_geometry_def empty_textures_def as_RequiredGeometry_def as_RequiredTextures_def)

lemma processOptions_populated: "as_ProcessedOptions (processOptions u) \<noteq> None"
proof -
  define preset where
    "preset = (case level_opt u of Some l \<Rightarrow> getPreset l | None \<Rightarrow> empty_options)"
  define merged where
    "merged = merge_options (merge_options (merge_options empty_options baseDefaults) preset) u"
  have m: "as_ProcessedOptions merged \<noteq> None"
    unfolding merged_def
    by (intro merge_options_required base_required)
  have "processOptions u = merged \<or> processOptions u = merged \<lparr> exclude_opt := None \<rparr>"
    by (simp add: processOptions_def deepMerge_def Let_def merged_def preset_def)
  then show ?thesis using m exclude_update_required [OF m] by metis
qed

lemma invalid_iff: "(js_lt x (Num 0) \<or> js_gt x (Num 1) \<or> isNaN x) = (\<not> in_range 0 1 x)"
  by (cases x) (auto simp: in_range_def js_gt_def)

lemma maxSize_iff: "(js_le x (Num 0) \<or> \<not> Number_isInteger x) = (\<not> positive_integer x)"
  by (cases x) (auto simp: positive_integer_def)

lemma validate_fields:
  "quality (geometry (fst (validateOptions p))) = (if in_range 0 1 (quality (geometry p)) then quality (geometry p) else Num (75 / 100))"
  "speed (geometry (fst (validateOptions p))) = (if in_range 0 1 (speed (geometry p)) then speed (geometry p) else Num (5 / 10))"
  "precision (geometry (fst (validateOptions p))) = (if in_range 0 1 (precision (geometry p)) then precision (geometry p) else Num (8 / 10))"
  "tex_quality (textures (fst (validateOptions p))) = (if in_range 0 1 (tex_quality (textures p)) then tex_quality (textures p) else Num (75 / 100))"
  "maxSize (textures (fst (validateOptions p))) = (if positive_integer (maxSize (textures p)) then maxSize (textures p) else Num 1024)"
  by (simp_all add: validateOptions_def check_geometry_quality_def check_geometry_speed_def
      check_geometry_precision_def check_textures_quality_def check_textures_maxSize_def
      invalid_iff maxSize_iff)

lemma validate_valid: "numeric_fields_valid (fst (validateOptions p))"
  unfolding numeric_fields_valid_def validate_fields
  by (simp add: in_range_def positive_integer_def)

lemma validate_fixpoint: "numeric_fields_valid p \<Longrightarrow> validateOptions p = (p, [])"
  by (simp add: numeric_fields_valid_def validateOptions_def check_geometry_quality_def check_geometry_speed_def
      check_geometry_precision_def check_textures_quality_def check_textures_maxSize_def
      invalid_iff maxSize_iff)

lemma validate_idem: "validateOptions (fst (validateOptions p)) = (fst (validateOptions p), [])"
  by (rule validate_fixpoint [OF validate_valid])

text \<open>
  Claim C2. For every partial options object, processOptions yields an object with all
  required fields present; validateOptions, applied to it, returns options whose
  geometry quality, speed and precision and texture quality lie in the unit interval
  and whose maxSize is a positive integer. A field that was already valid is kept and
  any other is the documented default (0.75, 0.5, 0.8, 0.75, 1024); the compression
  method and the texture mode are untouched. Validating the result again changes
  nothing and warns about nothing, and the call returns the reference it was given,
  with the validated options behind it. Both functions are total: nothing in them
  throws.
\<close>

theorem processOptions_validateOptions_total:
  "\<exists>p. as_ProcessedOptions (processOptions u) = Some p \<and>
        numeric_fields_valid (fst (validateOptions p)) \<and>
        quality (geometry (fst (validateOptions p))) =
          (if in_range 0 1 (quality (geometry p)) then quality (geometry p)
           else Num (75 / 100)) \<and>
        speed (geometry (fst (validateOptions p))) =
          (if in_range 0 1 (speed (geometry p)) then speed (geometry p)
           else Num (5 / 10)) \<and>
        precision (geometry (fst (validateOptions p))) =
          (if in_range 0 1 (precision (geometry p)) then precision (geometry p)
           else Num (8 / 10)) \<and>
        tex_quality (textures (fst (validateOptions p))) =
          (if in_range 0 1 (tex_quality (textures p)) then tex_quality (textures p)
           else Num (75 / 100)) \<and>
        maxSize (textures (fst (validateOptions p))) =
          (if positive_integer (maxSize (textures p)) then maxSize (textures p)
           else Num 1024) \<and>
        compress (geometry (fst (validateOptions p))) = compress (geometry p) \<and>
        mode (textures (fst (validateOptions p))) = mode (textures p) \<and>
        validateOptions (fst (validateOptions p)) = (fst (validateOptions p), []) \<and>
        fst (validateOptions_ref (store (r := p)) r) = r \<and>
        snd (validateOptions_ref (store (r := p)) r) r = fst (validateOptions p)"
proof -
  obtain p where p: "as_ProcessedOptions (processOptions u) = Some p"
    using processOptions_populated [of u] by blast
  have untouched:
    "compress (geometry (fst (validateOptions p))) = compress (geometry p) \<and>
     mode (textures (fst (validateOptions p))) = mode (textures p)"
    by (simp add: validateOptions_def check_geometry_quality_def check_geometry_speed_def
        check_geometry_precision_def check_textures_quality_def check_textures_maxSize_def)
  have same:
    "fst (validateOptions_ref (store (r := p)) r) = r \<and>
     snd (validateOptions_ref (store (r := p)) r) r = fst (validateOptions p)"
    by (simp add: validateOptions_ref_def)
  show ?thesis
    using p validate_valid [of p] validate_fields [of p] untouched validate_idem [of p] same
    by blast
qed

section \<open>Properties of the processor\<close>

lemma transformDocument_append:
  "transformDocument io (ts @ us) d = and_then (transformDocument io ts d) (transformDocument io us)"
  by (induction ts arbitrary: d) (simp_all add: and_then_def split: sum.splits)

lemma and_then_Inr [simp]: "and_then r Inr = r"
  by (simp add: and_then_def split: sum.splits)

text \<open>
  Claim C4, as the code has it. With \<open>meshopt\<close> the document goes through prune, dedup
  and quantize and nothing else: the level of toMeshoptParams is computed (and printed
  when verbose) but no transform receives it. With \<open>both\<close> it goes through prune, dedup,
  quantize and draco with the parameters of toDracoParams; no mesh-compression step
  precedes draco. This holds for every behaviour of the library and every document.
\<close>

theorem applyGeometryOptimizations_meshopt_both:
  "(compress (geometry options) = Meshopt \<longrightarrow>
      applyGeometryOptimizations io options document =
        transformDocument io
          [Prune, Dedup, QuantizeT (toQuantizationBits (precision (geometry options)))] document) \<and>
   (compress (geometry options) = Both \<longrightarrow>
      applyGeometryOptimizations io options document =
        transformDocument io
          [Prune, Dedup, QuantizeT (toQuantizationBits (precision (geometry options))),
           DracoT (toDracoParams (quality (geometry options)) (speed (geometry options))
                      (precision (geometry options)))] document)"
  by (auto simp: applyGeometryOptimizations_def and_then_def split: sum.splits)

text \<open>
  Claim C4, witness: the default options select \<open>meshopt\<close>, and the same options with
  \<open>compress\<close> set to \<open>both\<close> select \<open>both\<close>; on the recording library the transforms
  applied to an empty document are the ones listed.
\<close>

theorem applyGeometryOptimizations_meshopt_both_witness:
  "compress (geometry defaultOptions) = Meshopt \<and>
   applyGeometryOptimizations traceIO defaultOptions [] =
     Inr [Prune, Dedup, QuantizeT (toQuantizationBits (Num (8 / 10)))] \<and>
   compress (geometry (defaultOptions
     \<lparr> geometry := (geometry defaultOptions) \<lparr> compress := Both \<rparr> \<rparr>)) = Both \<and>
   applyGeometryOptimizations traceIO
     (defaultOptions \<lparr> geometry := (geometry defaultOptions) \<lparr> compress := Both \<rparr> \<rparr>) [] =
     Inr [Prune, Dedup, QuantizeT (toQuantizationBits (Num (8 / 10))),
          DracoT (toDracoParams (Num (75 / 100)) (Num (5 / 10)) (Num (8 / 10)))]"
  using applyGeometryOptimizations_meshopt_both [of defaultOptions traceIO "[]"]
    applyGeometryOptimizations_meshopt_both
      [of "defaultOptions \<lparr> geometry := (geometry defaultOptions) \<lparr> compress := Both \<rparr> \<rparr>"
          traceIO "[]"]
  by (simp add: defaultOptions_def traceIO_def)

text \<open>
  Claim C4, counterexample: with the default options (\<open>meshopt\<close>, quality 0.75) the
  transforms applied are prune, dedup and quantize; the mesh-compression transform
  with the level of toMeshoptParams is not among them.
\<close>

theorem meshopt_counterexample:
  "applyGeometryOptimizations traceIO defaultOptions [] =
     Inr [Prune, Dedup, QuantizeT (toQuantizationBits (Num (8 / 10)))] \<and>
   MeshoptT (meshoptLevel (toMeshoptParams (quality (geometry defaultOptions))))
     \<notin> set [Prune, Dedup, QuantizeT (toQuantizationBits (Num (8 / 10)))]"
  by (simp add: applyGeometryOptimizations_def and_then_def traceIO_def defaultOptions_def)

text \<open>
  Claim C1. processBuffer always returns a buffer. Whenever reading the document
  (which fails for an unsupported extension and for input that the library cannot
  parse), the geometry pass, the texture pass or the writing of the binary form
  throws, the buffer returned is the input buffer itself.
\<close>

theorem processBuffer_fallback:
  assumes "loadDocument io inputBuffer fname = Inl e \<or>
     (\<exists>d. loadDocument io inputBuffer fname = Inr d \<and>
        (applyGeometryOptimizations io options d = Inl e \<or>
         (\<exists>d1. applyGeometryOptimizations io options d = Inr d1 \<and>
            (applyTextureOptimizations io options d1 = Inl e \<or>
             (\<exists>d2. applyTextureOptimizations io options d1 = Inr d2 \<and>
                writeBinary io d2 = Inl e)))))"
  shows "processBuffer io options inputBuffer fname = inputBuffer"
  using assms by (auto simp: processBuffer_def processBuffer_try_def and_then_def)

text \<open>
  Claim C1, witness: a three-byte \<open>.glb\<close> input that the binary reader rejects comes
  back unchanged.
\<close>

theorem processBuffer_fallback_witness:
  "loadDocument corruptIO (ownBuffer [1, 2, 3]) ''model.glb'' = Inl LibraryError \<and>
   processBuffer corruptIO defaultOptions (ownBuffer [1, 2, 3]) ''model.glb'' = ownBuffer [1, 2, 3]"
proof -
  have h: "loadDocument corruptIO (ownBuffer [1, 2, 3]) ''model.glb'' = Inl LibraryError"
    by (simp add: loadDocument_def corruptIO_def traceIO_def endsWith_def toLowerCase_char_def)
  show ?thesis using h processBuffer_fallback [of corruptIO "ownBuffer [1, 2, 3]" "''model.glb''" LibraryError defaultOptions]
    by simp
qed
























section \<open>Properties of the plug-in\<close>









text \<open>
  Claim C5, the code at a failing input. The asset is \<open>foo.gltf\<close>, its buffer is at
  \<open>data.dat\<close>, and no KTX2 texture was emitted. The URI in the JSON becomes
  \<open>foo_bin/data.dat\<close>, while the resource stays under the key \<open>data.dat\<close>: the
  rewritten URI is not a key of the returned resource map.
\<close>

theorem namespaceResources_dangling_uris:
  "namespaceResources ''foo.gltf''
     (Inr (JsonDoc \<lparr> buffers = FieldArray [Entry (UriString ''data.dat'')],
                       images = FieldMissing \<rparr>))
     [(''data.dat'', [1, 2, 3])] =
   (Some \<lparr> buffers = FieldArray [Entry (UriString ''foo_bin/data.dat'')],
            images = FieldMissing \<rparr>,
    [(''data.dat'', [1, 2, 3])])"
  by (simp add: namespaceResources_def namespace_try_def rewrite_field_def and_then_def
      remapResources_def remapKey_def namespacedBufferUri_def stripDotSlash_def
      basename_ext_def extname_def posix_basename_def endsWith_def startsWith_def
      toLowerCase_char_def Let_def)

text \<open>
  For a buffer at \<open>data.bin\<close> the two sides agree: the JSON and the resource map both
  say \<open>foo_bin/data.bin\<close>.
\<close>

lemma namespaceResources_foo_data_bin:
  "namespaceResources ''foo.gltf''
     (Inr (JsonDoc \<lparr> buffers = FieldArray [Entry (UriString ''data.bin'')],
                       images = FieldMissing \<rparr>))
     [(''data.bin'', bs)] =
   (Some \<lparr> buffers = FieldArray [Entry (UriString ''foo_bin/data.bin'')],
            images = FieldMissing \<rparr>,
    [(''foo_bin/data.bin'', bs)])"
  by (simp add: namespaceResources_def namespace_try_def rewrite_field_def and_then_def
      remapResources_def remapKey_def namespacedBufferUri_def stripDotSlash_def
      basename_ext_def extname_def posix_basename_def endsWith_def startsWith_def
      toLowerCase_char_def Let_def)

text \<open>
  A second way for the two sides to part: a KTX2 texture was emitted for one image and
  another image was left as a PNG. The JSON names the second \<open>coat.ktx2\<close>, the
  resource map holds it under \<open>foo_bin/coat.png\<close>.
\<close>

lemma namespaceResources_leftover_image:
  "namespaceResources ''foo.gltf''
     (Inr (JsonDoc \<lparr> buffers = FieldArray [Entry (UriString ''data.bin'')],
                       images = FieldArray [Entry (UriString ''wood_normal.ktx2''),
                                            Entry (UriString ''coat.png'')] \<rparr>))
     [(''data.bin'', [1]), (''wood_normal.ktx2'', [2]), (''coat.png'', [3])] =
   (Some \<lparr> buffers = FieldArray [Entry (UriString ''foo_bin/data.bin'')],
            images = FieldArray [Entry (UriString ''wood_normal.ktx2''),
                                 Entry (UriString ''coat.ktx2'')] \<rparr>,
    [(''foo_bin/data.bin'', [1]), (''wood_normal.ktx2'', [2]), (''foo_bin/coat.png'', [3])])"
  by (simp add: namespaceResources_def namespace_try_def rewrite_field_def and_then_def
      remapResources_def remapKey_def namespacedBufferUri_def ktx2ImageUri_def stripDotSlash_def
      stripExtension_def
      basename_ext_def extname_def posix_basename_def endsWith_def startsWith_def
      toLowerCase_char_def Let_def)

text \<open>
  Elements whose \<open>uri\<close> begins with \<open>data:\<close> contribute nothing to the tracked set:
  removing them from the parsed document leaves the result as it is.
\<close>

lemma for_each_uri_drop_data:
  "for_each_uri body (filter (\<lambda>x. \<not> is_data_entry x) xs) st = for_each_uri body xs st"
  by (induction body xs st rule: for_each_uri.induct) simp_all

lemma for_field_drop_data:
  "for_field body (drop_data_field fld) st = for_field body fld st"
  by (cases fld) (simp_all add: for_field_def for_each_uri_drop_data)

lemma extractJson_drop_data:
  "extractJson (\<lambda>bs. map_sum id drop_data_uris (parse bs)) f b =
     map_option (map_sum id drop_data_uris) (extractJson parse f b)"
  by (simp add: extractJson_def split: sum.splits)

lemma trackDependencyFiles_ignores_data_uris:
  "trackDependencyFiles (\<lambda>bs. map_sum id drop_data_uris (parse bs)) dn jn f b deps =
   trackDependencyFiles parse dn jn f b deps"
proof (cases "extractJson parse f b")
  case None
  then show ?thesis by (simp add: trackDependencyFiles_def extractJson_drop_data)
next
  case (Some r)
  show ?thesis
  proof (cases r)
    case (Inl e)
    then show ?thesis using Some by (simp add: trackDependencyFiles_def extractJson_drop_data)
  next
    case (Inr j)
    then show ?thesis using Some
      by (cases j) (simp_all add: trackDependencyFiles_def extractJson_drop_data for_field_drop_data)
  qed
qed

text \<open>
  For a buffer that owns its memory the bytes read are those of the container: the
  length comes from bytes 12-15, least significant first, and the text parsed starts
  at byte 20.
\<close>

lemma contents_subarray:
  "contents (subarray b s e) = take (min e (byteLength b) - s) (drop s (contents b))"
proof (cases "s \<le> byteLength b")
  case True
  have l: "contents (subarray b s e) =
      take (min e (byteLength b) - s) (drop (byteOffset b + s) (buffer b))"
    using True by (simp add: contents_def subarray_def Let_def min_absorb1 max_def)
  have r: "drop s (contents b) = take (byteLength b - s) (drop (byteOffset b + s) (buffer b))"
    by (simp add: contents_def drop_take add.commute)
  have m: "min (min e (byteLength b) - s) (byteLength b - s) = min e (byteLength b) - s"
    by simp
  show ?thesis unfolding l r by (simp only: take_take m)
next
  case False
  then show ?thesis by (simp add: contents_def subarray_def Let_def min_def max_def)
qed

lemma extractJson_glb_own_buffer:
  assumes "endsWith f ''.glb''" "\<not> endsWith f ''.gltf''" "16 \<le> length bs"
  shows "extractJson parse f (ownBuffer bs) =
     Some (parse (take (unat (bs ! 12) + 256 * unat (bs ! 13) + 65536 * unat (bs ! 14) +
                         16777216 * unat (bs ! 15)) (drop 20 bs)))"
proof -
  have c: "contents (ownBuffer bs) = bs" by (simp add: contents_def ownBuffer_def)
  have g: "getUint32_le (buffer (ownBuffer bs)) 12 =
     Inr (unat (bs ! 12) + 256 * unat (bs ! 13) + 65536 * unat (bs ! 14) +
          16777216 * unat (bs ! 15))"
    using assms(3) by (simp add: getUint32_le_def ownBuffer_def)
  have t: "take (min (20 + n) (length bs) - 20) (drop 20 bs) = take n (drop 20 bs)" for n
    by (cases "20 + n \<le> length bs") (simp_all add: min_def)
  have l: "byteLength (ownBuffer bs) = length bs" by (simp add: ownBuffer_def)
  show ?thesis using assms(1,2)
    by (simp add: extractJson_def g contents_subarray c l t)
qed

lemma contents_pooled: "contents pooledGlb = fixtureGlb"
  by (simp add: contents_def pooledGlb_def fixtureGlb_def fixtureJson_def)

text \<open>
  Claim C8, the code at a failing input. The same 52 bytes of a binary container are
  given once as a buffer that owns its memory and once as a view at offset 8 of a
  larger ArrayBuffer. In the first case the chunk length 32 is read at byte 12 and
  the dependency \<open>data.bin\<close> is found. In the second the \<open>DataView\<close> is made over the
  whole underlying ArrayBuffer, so offset 12 there is byte 4 of the container (the
  version, 2); two bytes of JSON are parsed, the parse fails, and nothing is tracked.
\<close>

theorem trackDependencyFiles_pooled_buffer:
  "contents pooledGlb = contents (ownBuffer fixtureGlb) \<and>
   trackDependencyFiles fixtureParse simple_dirname simple_join ''model.glb''
     (ownBuffer fixtureGlb) {} = {''data.bin''} \<and>
   trackDependencyFiles fixtureParse simple_dirname simple_join ''model.glb'' pooledGlb {} = {}"
  by (simp add: trackDependencyFiles_def extractJson_def getUint32_le_def subarray_def
      contents_def pooledGlb_def ownBuffer_def fixtureGlb_def fixtureJson_def fixtureParse_def
      endsWith_def startsWith_def for_field_def simple_dirname_def simple_join_def Let_def)

text \<open>
  Claim C9, as the code has it. The list of statistics is empty when the plug-in
  instance is created; buildStart leaves it as it is, in every mode and whatever the
  probe and the initialisation do; each processed source asset appends one entry; and
  closeBundle of a build lists every entry recorded since the instance was created,
  those of earlier builds of the same instance included.
\<close>

theorem buildStart_keeps_stats:
  "optimizationStats (initialState opts) = [] \<and>
   optimizationStats (fst (buildStart cmd ktxProbe initResult s)) = optimizationStats s \<and>
   optimizationStats (recordStat stat s) = optimizationStats s @ [stat] \<and>
   closeBundle Build (recordStat stat (fst (buildStart cmd ktxProbe initResult s))) =
     map name (optimizationStats s) @ [name stat]"
  by (simp add: initialState_def buildStart_def recordStat_def closeBundle_def Let_def split: option.splits)

text \<open>
  Claim C9, counterexample: one plug-in instance runs two builds. The first processes
  \<open>a.gltf\<close>, the second starts with buildStart and processes \<open>b.gltf\<close>; the summary of
  the second build lists \<open>a.gltf\<close> as well.
\<close>

theorem buildStart_counterexample:
  "closeBundle Build
     (recordStat \<lparr> name = ''b.gltf'', originalTotalSize = 200, optimizedTotalSize = 100 \<rparr>
       (fst (buildStart Build True None
         (recordStat \<lparr> name = ''a.gltf'', originalTotalSize = 100, optimizedTotalSize = 50 \<rparr>
           (fst (buildStart Build True None (initialState defaultOptions)))))))
   = [''a.gltf'', ''b.gltf'']"
  by (simp add: initialState_def buildStart_def recordStat_def closeBundle_def Let_def)

end
